theory Spec2Isabelle
  imports Main "HOL-Library.Word"
begin

section \<open>The sbuff string buffer of src/lib/util/sbuff.c\<close>

text \<open>
  Conventions of the embedding.
  \<^item> A \<^verbatim>\<open>char *\<close> is an address, an \<open>int\<close>; \<open>NULL\<close> is 0. Pointers are compared as
    integers. The macros of \<^verbatim>\<open>fr_sbuff_shift\<close> add a \<^verbatim>\<open>size_t\<close> of any size to a pointer
    and subtract one from it: there the sum and the difference are taken modulo \<open>2^64\<close>,
    as the machine computes them (\<open>ptr_add\<close>, \<open>ptr_sub\<close>). Elsewhere pointer arithmetic is
    that of the integers.
  \<^item> \<^verbatim>\<open>size_t\<close> is a 64-bit word: \<open>+\<close> and \<open>-\<close> wrap. A \<^verbatim>\<open>ssize_t\<close> result is
    the \<open>int\<close> read from the 64-bit pattern by \<open>sint\<close>; a pointer difference assigned to
    a \<^verbatim>\<open>size_t\<close> is converted by \<open>word_of_int\<close>.
  \<^item> Memory is one store from addresses to bytes, threaded through every function that
    reads or writes bytes.
  \<^item> The \<^verbatim>\<open>parent\<close> links of a view are a list: the head is the view a function is
    called on, the tail its ancestors in \<^verbatim>\<open>->parent\<close> order. The \<^verbatim>\<open>next\<close> links of
    a view's markers are the list \<open>sb_m\<close> of the markers' positions. The empty list is
    no view at all: the functions do nothing on it (the C code would dereference NULL).
  \<^item> The views of a list are linked as \<^verbatim>\<open>FR_SBUFF_COPY\<close> links a view to its parent. The
    view made by \<^verbatim>\<open>FR_SBUFF_NO_ADVANCE\<close> is used on its own and dropped after the call,
    so that its source keeps its cursor.
\<close>

subsection \<open>Data\<close>

type_synonym addr = int
type_synonym size_t = "64 word"
type_synonym memory = "addr \<Rightarrow> char"

definition NULL :: addr where
  "NULL = 0"

definition NUL :: char where
  "NUL = CHR 0x00"

definition SIZE_MAX :: size_t where
  "SIZE_MAX = - 1"

text \<open>\<^verbatim>\<open>fr_sbuff_uctx_talloc_t\<close>: the growth context of a talloc backed sbuff.\<close>

record fr_sbuff_uctx_talloc =
  tctx_init :: size_t
  tctx_max :: size_t

text \<open>The \<^verbatim>\<open>extend\<close> function pointer of a view: unset, or \<^verbatim>\<open>fr_sbuff_extend_talloc\<close>.\<close>

datatype fr_sbuff_extend = No_extend | Extend_talloc

text \<open>
  \<^verbatim>\<open>fr_sbuff_t\<close>. The fields carry the prefix \<open>sb_\<close> (\<open>p\<close>, \<open>m\<close>, \<open>start\<close> and \<open>end\<close>
  are too short or reserved to be constants).
\<close>

record fr_sbuff =
  sb_buff :: addr
  sb_start :: addr
  sb_end :: addr
  sb_p :: addr
  sb_is_const :: bool
  sb_shifted :: size_t
  sb_extend :: fr_sbuff_extend
  sb_uctx :: fr_sbuff_uctx_talloc
  sb_m :: "addr list"

datatype fr_sbuff_parse_error =
    FR_SBUFF_PARSE_OK
  | FR_SBUFF_PARSE_ERROR_NOT_FOUND
  | FR_SBUFF_PARSE_ERROR_TRAILING
  | FR_SBUFF_PARSE_ERROR_NUM_OVERFLOW
  | FR_SBUFF_PARSE_ERROR_NUM_UNDERFLOW

subsection \<open>Bytes in memory and the C library\<close>

definition bytes :: "memory \<Rightarrow> addr \<Rightarrow> nat \<Rightarrow> string" where
  "bytes mem a n = map (\<lambda>i. mem (a + int i)) [0..<n]"

definition store_bytes :: "memory \<Rightarrow> addr \<Rightarrow> string \<Rightarrow> memory" where
  "store_bytes mem a xs =
     (\<lambda>x. if a \<le> x \<and> x < a + int (length xs) then xs ! nat (x - a) else mem x)"

text \<open>\<^verbatim>\<open>memcpy(dst, src, n)\<close>: the \<open>n\<close> bytes are read before any is written.\<close>

definition memcpy :: "memory \<Rightarrow> addr \<Rightarrow> addr \<Rightarrow> size_t \<Rightarrow> memory" where
  "memcpy mem dst src n =
     (\<lambda>x. if dst \<le> x \<and> x < dst + uint n then mem (src + (x - dst)) else mem x)"

text \<open>\<^verbatim>\<open>memmove(dst, src, n)\<close>: the same, for areas that may overlap.\<close>

definition memmove :: "memory \<Rightarrow> addr \<Rightarrow> addr \<Rightarrow> size_t \<Rightarrow> memory" where
  "memmove mem dst src n =
     (\<lambda>x. if dst \<le> x \<and> x < dst + uint n then mem (src + (x - dst)) else mem x)"

text \<open>The C string at \<open>a\<close>, when its terminator is known to stand at offset \<open>n\<close> at the latest.\<close>

definition c_string_upto :: "memory \<Rightarrow> addr \<Rightarrow> nat \<Rightarrow> string" where
  "c_string_upto mem a n = takeWhile (\<lambda>c. c \<noteq> NUL) (bytes mem a n)"

text \<open>\<^verbatim>\<open>strlen\<close> scans for the terminator; on a memory that holds none it does not return.\<close>

partial_function (option) strlen_from :: "memory \<Rightarrow> addr \<Rightarrow> nat \<Rightarrow> nat option" where
  "strlen_from mem s n = (if mem (s + int n) = NUL then Some n else strlen_from mem s (Suc n))"

definition strlen :: "memory \<Rightarrow> addr \<Rightarrow> size_t option" where
  "strlen mem s = map_option of_nat (strlen_from mem s 0)"

text \<open>\<^verbatim>\<open>ctype.h\<close> in the C locale.\<close>

definition isspace :: "char \<Rightarrow> bool" where
  "isspace c = (c = CHR '' '' \<or> (9 \<le> (of_char c :: nat) \<and> (of_char c :: nat) \<le> 13))"

definition isdigit :: "char \<Rightarrow> bool" where
  "isdigit c = (48 \<le> (of_char c :: nat) \<and> (of_char c :: nat) \<le> 57)"

definition tolower :: "char \<Rightarrow> char" where
  "tolower c =
     (if 65 \<le> (of_char c :: nat) \<and> (of_char c :: nat) \<le> 90
      then char_of ((of_char c :: nat) + 32) else c)"

definition EINVAL :: nat where
  "EINVAL = 22"

definition ERANGE :: nat where
  "ERANGE = 34"

definition LLONG_MAX :: int where
  "LLONG_MAX = 2 ^ 63 - 1"

definition LLONG_MIN :: int where
  "LLONG_MIN = - (2 ^ 63)"

definition ULLONG_MAX :: int where
  "ULLONG_MAX = 2 ^ 64 - 1"

text \<open>The value of a run of decimal digits.\<close>

definition decimal :: "string \<Rightarrow> int" where
  "decimal ds = foldl (\<lambda>a c. 10 * a + ((of_char c :: int) - 48)) 0 ds"

text \<open>
  The subject sequence of \<^verbatim>\<open>strtoll\<close>/\<^verbatim>\<open>strtoull\<close> in base 10 (ISO C 7.22.1.4): white
  space, an optional sign, decimal digits. The result is (negative, digits, characters
  up to the end of the digits); no digit means no conversion.
\<close>

definition subject_sequence :: "string \<Rightarrow> bool \<times> string \<times> nat" where
  "subject_sequence s =
     (let ws = takeWhile isspace s;
          r1 = dropWhile isspace s;
          neg = (r1 \<noteq> [] \<and> hd r1 = CHR ''-'');
          signed = (r1 \<noteq> [] \<and> (hd r1 = CHR ''-'' \<or> hd r1 = CHR ''+''));
          r2 = (if signed then tl r1 else r1);
          ds = takeWhile isdigit r2
      in (neg, ds, length ws + (if signed then 1 else 0) + length ds))"

text \<open>
  \<^verbatim>\<open>strtoll(s, &end, 10)\<close> on the C string \<open>s\<close>, with the value \<^verbatim>\<open>errno\<close> had before the
  call: (value, \<^verbatim>\<open>end - s\<close>, \<^verbatim>\<open>errno\<close> afterwards). Out of range clamps and sets ERANGE.
\<close>

definition strtoll :: "string \<Rightarrow> nat \<Rightarrow> int \<times> nat \<times> nat" where
  "strtoll s errno =
     (let (neg, ds, consumed) = subject_sequence s
      in if ds = [] then (0, 0, errno)
         else let v = (if neg then - decimal ds else decimal ds)
              in if v > LLONG_MAX then (LLONG_MAX, consumed, ERANGE)
                 else if v < LLONG_MIN then (LLONG_MIN, consumed, ERANGE)
                 else (v, consumed, errno))"

text \<open>\<^verbatim>\<open>strtoull(s, &end, 10)\<close>: a minus sign negates in the unsigned type.\<close>

definition strtoull :: "string \<Rightarrow> nat \<Rightarrow> int \<times> nat \<times> nat" where
  "strtoull s errno =
     (let (neg, ds, consumed) = subject_sequence s
      in if ds = [] then (0, 0, errno)
         else let v = decimal ds
              in if v > ULLONG_MAX then (ULLONG_MAX, consumed, ERANGE)
                 else if neg then ((2 ^ 64 - v) mod 2 ^ 64, consumed, errno)
                 else (v, consumed, errno))"

subsection \<open>What sbuff.c takes from sbuff.h\<close>

text \<open>
  The debug guard \<^verbatim>\<open>CHECK_SBUFF_INIT\<close> (sbuff.c line 50, the build without NDEBUG): the
  function returns 0 unless the four pointers are set. True when the function goes on.
\<close>

definition CHECK_SBUFF_INIT :: "fr_sbuff \<Rightarrow> bool" where
  "CHECK_SBUFF_INIT s =
     (sb_buff s \<noteq> NULL \<and> sb_start s \<noteq> NULL \<and> sb_end s \<noteq> NULL \<and> sb_p s \<noteq> NULL)"

text \<open>
  Modelled from the spec: \<^verbatim>\<open>fr_sbuff_remaining\<close> and \<^verbatim>\<open>fr_sbuff_used\<close> are macros of
  sbuff.h, which is not under src/. Spec 2: "computing remaining space, used length".
\<close>

definition fr_sbuff_remaining :: "fr_sbuff \<Rightarrow> size_t" where
  "fr_sbuff_remaining s = word_of_int (sb_end s - sb_p s)"

definition fr_sbuff_used :: "fr_sbuff \<Rightarrow> size_t" where
  "fr_sbuff_used s = word_of_int (sb_p s - sb_start s)"

text \<open>
  Modelled from the spec: \<^verbatim>\<open>fr_sbuff_advance\<close> is an inline function of sbuff.h, which
  is not under src/. Spec 2: "advancing the cursor while enforcing end-of-buffer limits";
  a request beyond the end moves nothing and returns the deficit, negative.
\<close>

definition fr_sbuff_advance :: "fr_sbuff \<Rightarrow> size_t \<Rightarrow> int \<times> fr_sbuff" where
  "fr_sbuff_advance s n =
     (let freespace = fr_sbuff_remaining s
      in if n > freespace then (sint (- (n - freespace)), s)
         else (sint n, s\<lparr>sb_p := sb_p s + uint n\<rparr>))"

text \<open>
  Modelled from the spec: what \<^verbatim>\<open>fr_sbuff_advance\<close> does to the ancestors of a view is
  written in sbuff.h, which is not under src/. After a write through a view made by
  \<^verbatim>\<open>FR_SBUFF_COPY\<close> the tests read the parent's cursor at the child's (sbuff_tests.c
  lines 285, 292, 335 and 338): a cursor that advances takes the cursors of the
  ancestors with it; a refused advance moves none.
\<close>

definition fr_sbuff_advance_chain :: "fr_sbuff list \<Rightarrow> size_t \<Rightarrow> int \<times> fr_sbuff list" where
  "fr_sbuff_advance_chain chain n =
     (case chain of
        [] \<Rightarrow> (0, [])
      | sbuff # _ \<Rightarrow>
          (let (r, sbuff') = fr_sbuff_advance sbuff n
           in if n > fr_sbuff_remaining sbuff then (r, chain)
              else (r, map (\<lambda>v. v\<lparr>sb_p := sb_p sbuff'\<rparr>) chain)))"

text \<open>
  Modelled from the spec: \<^verbatim>\<open>fr_sbuff_set\<close> is a macro of sbuff.h, which is not under
  src/. Spec 6 lists it as set-position; it keeps the cursor within the view and returns
  how far the cursor moved.
\<close>

definition fr_sbuff_set :: "fr_sbuff \<Rightarrow> addr \<Rightarrow> int \<times> fr_sbuff" where
  "fr_sbuff_set s q =
     (if q > sb_end s then (- (q - sb_end s), s)
      else if q < sb_start s then (0, s)
      else (q - sb_p s, s\<lparr>sb_p := q\<rparr>))"

text \<open>
  Modelled from the spec: \<^verbatim>\<open>FR_SBUFF_NO_ADVANCE\<close> is a macro of sbuff.h, which is not
  under src/. Spec 4.5: the copy is taken "without advancing the source": a fresh view
  that starts at the source's cursor, with no markers of its own.
\<close>

definition FR_SBUFF_NO_ADVANCE :: "fr_sbuff \<Rightarrow> fr_sbuff" where
  "FR_SBUFF_NO_ADVANCE s = s\<lparr>sb_buff := sb_p s, sb_start := sb_p s, sb_m := []\<rparr>"

text \<open>
  Modelled from the spec: \<^verbatim>\<open>FR_SBUFF_COPY\<close> and \<^verbatim>\<open>fr_sbuff_marker\<close> are in sbuff.h,
  which is not under src/. Spec 3: "child views are created by copying the parent's
  current bounds/cursor and linking to it", markers "by attaching to a view". The tests
  read, in the child, the \<^verbatim>\<open>buff\<close>, \<^verbatim>\<open>extend\<close> and \<^verbatim>\<open>uctx\<close> of the parent and a start
  at the parent's cursor (sbuff_tests.c lines 276 to 280 and 324), and in a new marker
  the cursor of its view (lines 313 and 327).
\<close>

definition FR_SBUFF_COPY :: "fr_sbuff list \<Rightarrow> fr_sbuff list" where
  "FR_SBUFF_COPY chain =
     (case chain of
        [] \<Rightarrow> []
      | sbuff # _ \<Rightarrow> sbuff\<lparr>sb_start := sb_p sbuff, sb_shifted := 0, sb_m := []\<rparr> # chain)"

definition fr_sbuff_marker :: "fr_sbuff list \<Rightarrow> fr_sbuff list" where
  "fr_sbuff_marker chain =
     (case chain of
        [] \<Rightarrow> []
      | sbuff # parents \<Rightarrow> sbuff\<lparr>sb_m := sb_p sbuff # sb_m sbuff\<rparr> # parents)"

subsection \<open>\<^verbatim>\<open>fr_sbuff_update\<close> (sbuff.c lines 66 to 108)\<close>

text \<open>\<^verbatim>\<open>update_ptr(_old_buff, _new_buff, _field)\<close> of line 74.\<close>

definition update_ptr :: "addr \<Rightarrow> addr \<Rightarrow> addr \<Rightarrow> addr" where
  "update_ptr old_buff new_buff field = new_buff + (field - old_buff)"

text \<open>
  The marker loop of lines 97 to 103 for the view \<^verbatim>\<open>sbuff_i\<close> with end \<open>e\<close>, on the pair
  (\<^verbatim>\<open>ret\<close>, \<^verbatim>\<open>sbuff_i->p\<close>): line 101 assigns \<^verbatim>\<open>sbuff_i->p\<close>, the marker keeps its rebased
  position.
\<close>

fun update_markers ::
  "addr \<Rightarrow> addr \<Rightarrow> addr \<Rightarrow> addr list \<Rightarrow> int \<times> addr \<Rightarrow> (int \<times> addr) \<times> addr list" where
  "update_markers old_buff new_buff e [] (ret, p) = ((ret, p), [])"
| "update_markers old_buff new_buff e (m_i # ms) (ret, p) =
     (let m' = update_ptr old_buff new_buff m_i;
          st = (if m' > e then (- 1, e) else (ret, p));
          (st', ms') = update_markers old_buff new_buff e ms st
      in (st', m' # ms'))"

text \<open>The loop over \<^verbatim>\<open>sbuff_i\<close> of lines 83 to 104.\<close>

fun update_chain ::
  "addr \<Rightarrow> addr \<Rightarrow> size_t \<Rightarrow> fr_sbuff list \<Rightarrow> int \<Rightarrow> int \<times> fr_sbuff list" where
  "update_chain old_buff new_buff new_len [] ret = (ret, [])"
| "update_chain old_buff new_buff new_len (sbuff_i # parents) ret =
     (let start' = update_ptr old_buff new_buff (sb_start sbuff_i);
          end' = start' + uint new_len;
          p' = update_ptr old_buff new_buff (sb_p sbuff_i);
          st = (if p' > end' then (- 1, end') else (ret, p'));
          ((ret', p''), ms') = update_markers old_buff new_buff end' (sb_m sbuff_i) st;
          (r, parents') = update_chain old_buff new_buff new_len parents ret'
      in (r, sbuff_i\<lparr>sb_buff := new_buff, sb_start := start', sb_end := end',
                      sb_p := p'', sb_m := ms'\<rparr> # parents'))"

definition fr_sbuff_update :: "fr_sbuff list \<Rightarrow> addr \<Rightarrow> size_t \<Rightarrow> int \<times> fr_sbuff list" where
  "fr_sbuff_update chain new_buff new_len =
     (case chain of
        [] \<Rightarrow> (0, [])
      | sbuff # _ \<Rightarrow>
          if \<not> CHECK_SBUFF_INIT sbuff then (0, chain)
          else update_chain (sb_start sbuff) new_buff new_len chain 0)"

subsection \<open>\<^verbatim>\<open>fr_sbuff_shift\<close> (sbuff.c lines 122 to 181)\<close>

text \<open>
  A pointer plus a \<^verbatim>\<open>size_t\<close> and a pointer minus a \<^verbatim>\<open>size_t\<close> in 64 bits. Line 132
  can leave any \<^verbatim>\<open>size_t\<close> in \<^verbatim>\<open>max_shift\<close>, up to \<open>2^64 - 1\<close>.
\<close>

definition ptr_add :: "addr \<Rightarrow> size_t \<Rightarrow> addr" where
  "ptr_add p n = (p + uint n) mod 2 ^ 64"

definition ptr_sub :: "addr \<Rightarrow> size_t \<Rightarrow> addr" where
  "ptr_sub p n = (p - uint n) mod 2 ^ 64"

text \<open>\<^verbatim>\<open>update_max_shift\<close> of line 132; the new value of \<^verbatim>\<open>_max_shift\<close>.\<close>

definition update_max_shift :: "addr \<Rightarrow> size_t \<Rightarrow> addr \<Rightarrow> size_t" where
  "update_max_shift buff max_shift field =
     (if ptr_add buff max_shift > field
      then max_shift - word_of_int (ptr_add buff max_shift - field)
      else max_shift)"

text \<open>\<^verbatim>\<open>update_ptr(_buff, _shift, _field)\<close> of line 131; the new value of \<^verbatim>\<open>_field\<close>.\<close>

definition shift_ptr :: "addr \<Rightarrow> size_t \<Rightarrow> addr \<Rightarrow> addr" where
  "shift_ptr buff shift field =
     (if ptr_sub field shift \<le> buff then buff else ptr_sub field shift)"

text \<open>The loops of lines 149 to 159; \<open>None\<close> is the \<^verbatim>\<open>return 0\<close> of lines 153 and 157.\<close>

fun max_shift_markers :: "addr \<Rightarrow> size_t \<Rightarrow> addr list \<Rightarrow> size_t option" where
  "max_shift_markers buff max_shift [] = Some max_shift"
| "max_shift_markers buff max_shift (m_i # ms) =
     (let max_shift' = update_max_shift buff max_shift m_i
      in if max_shift' = 0 then None else max_shift_markers buff max_shift' ms)"

fun max_shift_chain :: "addr \<Rightarrow> size_t \<Rightarrow> fr_sbuff list \<Rightarrow> size_t option" where
  "max_shift_chain buff max_shift [] = Some max_shift"
| "max_shift_chain buff max_shift (sbuff_i # parents) =
     (let max_shift' = update_max_shift buff max_shift (sb_p sbuff_i)
      in if max_shift' = 0 then None
         else case max_shift_markers buff max_shift' (sb_m sbuff_i) of
                None \<Rightarrow> None
              | Some max_shift'' \<Rightarrow> max_shift_chain buff max_shift'' parents)"

text \<open>The loop of lines 161 to 173.\<close>

fun shift_chain :: "addr \<Rightarrow> size_t \<Rightarrow> fr_sbuff list \<Rightarrow> fr_sbuff list" where
  "shift_chain buff max_shift [] = []"
| "shift_chain buff max_shift (sbuff_i # parents) =
     sbuff_i\<lparr>sb_p := shift_ptr buff max_shift (sb_p sbuff_i),
             sb_shifted := sb_shifted sbuff_i + max_shift,
             sb_m := map (shift_ptr buff max_shift) (sb_m sbuff_i)\<rparr>
       # shift_chain buff max_shift parents"

definition fr_sbuff_shift ::
  "memory \<Rightarrow> fr_sbuff list \<Rightarrow> size_t \<Rightarrow> size_t \<times> memory \<times> fr_sbuff list" where
  "fr_sbuff_shift mem chain shift =
     (case chain of
        [] \<Rightarrow> (0, mem, [])
      | sbuff # _ \<Rightarrow>
          if \<not> CHECK_SBUFF_INIT sbuff then (0, mem, chain)
          else
            let buff = sb_start sbuff;
                reterminate = (mem (sb_p sbuff) = NUL \<and> \<not> sb_is_const sbuff)
            in case max_shift_chain buff shift chain of
                 None \<Rightarrow> (0, mem, chain)
               | Some max_shift \<Rightarrow>
                   let chain' = shift_chain buff max_shift chain;
                       mem' = (if reterminate then mem(sb_p (hd chain') := NUL) else mem)
                   in (max_shift, mem', chain'))"

subsection \<open>The talloc allocator\<close>

text \<open>
  talloc is an external library. Its state here is the array length of every chunk
  (\<^verbatim>\<open>talloc_array_length\<close>, 0 where no chunk starts). The address
  \<^verbatim>\<open>talloc_realloc\<close> returns is the allocator's choice and a parameter of the model:
  \<open>answer = NULL\<close> is a failed reallocation, which leaves the chunk as it was. The new
  chunk holds the old bytes up to the shorter of the two lengths. A count of 0 frees the
  chunk and returns \<open>NULL\<close>.
\<close>

type_synonym talloc_heap = "addr \<Rightarrow> size_t"

definition talloc_array_length :: "talloc_heap \<Rightarrow> addr \<Rightarrow> size_t" where
  "talloc_array_length heap ptr = heap ptr"

definition talloc_realloc ::
  "addr \<Rightarrow> memory \<Rightarrow> talloc_heap \<Rightarrow> addr \<Rightarrow> size_t \<Rightarrow> addr \<times> memory \<times> talloc_heap" where
  "talloc_realloc answer mem heap ptr count =
     (if count = 0 then (NULL, mem, heap(ptr := 0))
      else if answer = NULL then (NULL, mem, heap)
      else (answer,
            memcpy mem answer ptr (min (heap ptr) count),
            (heap(ptr := 0))(answer := count)))"

subsection \<open>\<^verbatim>\<open>fr_sbuff_extend_talloc\<close> (sbuff.c lines 192 to 243)\<close>

text \<open>
  Lines 208 to 231: the value of \<^verbatim>\<open>elen\<close> at line 232, or \<open>None\<close> for the
  \<^verbatim>\<open>return 0\<close> of line 228.
\<close>

definition extend_talloc_elen :: "fr_sbuff_uctx_talloc \<Rightarrow> size_t \<Rightarrow> size_t \<Rightarrow> size_t option" where
  "extend_talloc_elen tctx clen extension =
     (let elen = (if clen + extension < tctx_init tctx then (tctx_init tctx - clen) + 1
                  else if extension < clen then clen - 1
                  else extension)
      in if tctx_max tctx \<noteq> 0 \<and> clen + elen > tctx_max tctx
         then (let elen' = tctx_max tctx - clen
               in if elen' = 0 then None else Some (elen' + 1))
         else Some elen)"

definition fr_sbuff_extend_talloc ::
  "addr \<Rightarrow> memory \<Rightarrow> talloc_heap \<Rightarrow> fr_sbuff list \<Rightarrow> size_t
     \<Rightarrow> size_t \<times> memory \<times> talloc_heap \<times> fr_sbuff list" where
  "fr_sbuff_extend_talloc answer mem heap chain extension =
     (case chain of
        [] \<Rightarrow> (0, mem, heap, [])
      | sbuff # _ \<Rightarrow>
          if \<not> CHECK_SBUFF_INIT sbuff then (0, mem, heap, chain)
          else
            (let clen = talloc_array_length heap (sb_buff sbuff)
             in case extend_talloc_elen (sb_uctx sbuff) clen extension of
                  None \<Rightarrow> (0, mem, heap, chain)
                | Some elen \<Rightarrow>
                    (let nlen = clen + elen;
                         (new_buff, mem', heap') =
                            talloc_realloc answer mem heap (sb_buff sbuff) nlen
                     in if new_buff = NULL then (0, mem', heap', chain)
                        else (elen, mem', heap',
                              snd (fr_sbuff_update chain new_buff (nlen - 1))))))"

subsection \<open>\<^verbatim>\<open>fr_sbuff_trim_talloc\<close> (sbuff.c lines 252 to 272)\<close>

definition fr_sbuff_trim_talloc ::
  "addr \<Rightarrow> memory \<Rightarrow> talloc_heap \<Rightarrow> fr_sbuff list
     \<Rightarrow> int \<times> memory \<times> talloc_heap \<times> fr_sbuff list" where
  "fr_sbuff_trim_talloc answer mem heap chain =
     (case chain of
        [] \<Rightarrow> (0, mem, heap, [])
      | sbuff # _ \<Rightarrow>
          if \<not> CHECK_SBUFF_INIT sbuff then (0, mem, heap, chain)
          else
            (let clen = talloc_array_length heap (sb_start sbuff);
                 nlen = (word_of_int (sb_p sbuff - sb_start sbuff) :: size_t) + 1
             in if nlen < clen
                then (let (new_buff, mem', heap') =
                            talloc_realloc answer mem heap (sb_start sbuff) nlen
                      in if new_buff = NULL then (- 1, mem', heap', chain)
                         else (let (ret, chain') = fr_sbuff_update chain new_buff (nlen - 1)
                               in if ret < 0 then (- 1, mem', heap', chain')
                                  else (0, mem', heap', chain')))
                else (0, mem, heap, chain)))"

subsection \<open>Copying out of an sbuff (sbuff.c lines 430 to 571)\<close>

definition fr_sbuff_out_bstrncpy_exact ::
  "memory \<Rightarrow> addr \<Rightarrow> size_t \<Rightarrow> fr_sbuff \<Rightarrow> size_t \<Rightarrow> int \<times> memory \<times> fr_sbuff" where
  "fr_sbuff_out_bstrncpy_exact mem out outlen sbuff_in len0 =
     (if \<not> CHECK_SBUFF_INIT sbuff_in then (0, mem, sbuff_in)
      else
        let len = (if len0 = SIZE_MAX then word_of_int (sb_end sbuff_in - sb_p sbuff_in)
                   else len0)
        in if outlen = 0 then (sint (- (len + 1)), mem, sbuff_in)
           else
             let outlen' = outlen - 1
             in if len > outlen' then (sint (outlen' - len), mem, sbuff_in)
                else if sb_p sbuff_in + uint len > sb_end sbuff_in then (0, mem, sbuff_in)
                else (sint len,
                      (memcpy mem out (sb_p sbuff_in) len)(out + uint len := NUL),
                      snd (fr_sbuff_advance sbuff_in len)))"

text \<open>\<^verbatim>\<open>STRNCPY_TRIM_LEN(_len, _in, _outlen)\<close> of lines 450 to 455; the new \<^verbatim>\<open>_len\<close>.\<close>

definition STRNCPY_TRIM_LEN :: "size_t \<Rightarrow> fr_sbuff \<Rightarrow> size_t \<Rightarrow> size_t" where
  "STRNCPY_TRIM_LEN len0 sbuff_in outlen =
     (let len1 = (if len0 = SIZE_MAX then word_of_int (sb_end sbuff_in - sb_p sbuff_in)
                  else len0);
          len2 = (if len1 > outlen then outlen else len1)
      in if sb_p sbuff_in + uint len2 > sb_end sbuff_in
         then word_of_int (sb_end sbuff_in - sb_p sbuff_in)
         else len2)"

definition fr_sbuff_out_bstrncpy ::
  "memory \<Rightarrow> addr \<Rightarrow> size_t \<Rightarrow> fr_sbuff \<Rightarrow> size_t \<Rightarrow> size_t \<times> memory \<times> fr_sbuff" where
  "fr_sbuff_out_bstrncpy mem out outlen sbuff_in len0 =
     (if \<not> CHECK_SBUFF_INIT sbuff_in then (0, mem, sbuff_in)
      else if outlen = 0 then (0, mem, sbuff_in)
      else
        let len = STRNCPY_TRIM_LEN len0 sbuff_in (outlen - 1)
        in (len,
            (memcpy mem out (sb_p sbuff_in) len)(out + uint len := NUL),
            snd (fr_sbuff_advance sbuff_in len)))"

text \<open>
  The loops of lines 520 and 563: from \<open>p\<close>, copy bytes to \<open>out_p\<close> while \<open>p < end\<close> and
  the byte is in the class \<open>ok\<close>; the result is (\<open>p\<close>, \<open>out_p\<close>, memory) after the loop.
  The class is \<^verbatim>\<open>allowed_chars\<close>, or the complement of \<^verbatim>\<open>until\<close>.
\<close>

function copy_while ::
  "(char \<Rightarrow> bool) \<Rightarrow> memory \<Rightarrow> addr \<Rightarrow> addr \<Rightarrow> addr \<Rightarrow> addr \<times> addr \<times> memory" where
  "copy_while ok mem p e out_p =
     (if p < e \<and> ok (mem p) then copy_while ok (mem(out_p := mem p)) (p + 1) e (out_p + 1)
      else (p, out_p, mem))"
  by pat_completeness auto
termination
  by (relation "measure (\<lambda>(ok, mem, p, e, out_p). nat (e - p))") auto

definition fr_sbuff_out_bstrncpy_allowed ::
  "memory \<Rightarrow> addr \<Rightarrow> size_t \<Rightarrow> fr_sbuff \<Rightarrow> size_t \<Rightarrow> (char \<Rightarrow> bool)
     \<Rightarrow> size_t \<times> memory \<times> fr_sbuff" where
  "fr_sbuff_out_bstrncpy_allowed mem out outlen sbuff_in len0 allowed_chars =
     (if \<not> CHECK_SBUFF_INIT sbuff_in then (0, mem, sbuff_in)
      else if outlen = 0 then (0, mem, sbuff_in)
      else
        let len = STRNCPY_TRIM_LEN len0 sbuff_in (outlen - 1);
            e = sb_p sbuff_in + uint len;
            (p, out_p, mem') = copy_while allowed_chars mem (sb_p sbuff_in) e out;
            copied = (word_of_int (p - sb_p sbuff_in) :: size_t)
        in (copied, mem'(out_p := NUL), snd (fr_sbuff_advance sbuff_in copied)))"

definition fr_sbuff_out_bstrncpy_until ::
  "memory \<Rightarrow> addr \<Rightarrow> size_t \<Rightarrow> fr_sbuff \<Rightarrow> size_t \<Rightarrow> (char \<Rightarrow> bool)
     \<Rightarrow> size_t \<times> memory \<times> fr_sbuff" where
  "fr_sbuff_out_bstrncpy_until mem out outlen sbuff_in len0 until =
     (if \<not> CHECK_SBUFF_INIT sbuff_in then (0, mem, sbuff_in)
      else if outlen = 0 then (0, mem, sbuff_in)
      else
        let len = STRNCPY_TRIM_LEN len0 sbuff_in (outlen - 1);
            e = sb_p sbuff_in + uint len;
            (p, out_p, mem') = copy_while (\<lambda>c. \<not> until c) mem (sb_p sbuff_in) e out;
            copied = (word_of_int (p - sb_p sbuff_in) :: size_t)
        in (copied, mem'(out_p := NUL), snd (fr_sbuff_advance sbuff_in copied)))"

subsection \<open>Parsing integers (sbuff.c lines 586 to 675)\<close>

text \<open>
  \<^verbatim>\<open>SBUFF_PARSE_INT_DEF(_name, _type, _min, _max, _max_char)\<close>: the function the macro
  defines, for the cast \<open>to_type\<close> to \<^verbatim>\<open>_type\<close>. \<open>buff\<close> is the address of the automatic
  array \<^verbatim>\<open>buff[_max_char + 1]\<close>, which dies with the call: the memory of the caller is
  not changed. \<open>errno\<close> is the value \<^verbatim>\<open>errno\<close> has when the function is entered (the
  function never clears it). The result is (bytes consumed, \<^verbatim>\<open>*err\<close>, \<^verbatim>\<open>*out\<close> when it
  was written, the view \<^verbatim>\<open>in\<close>).
\<close>

definition SBUFF_PARSE_INT_DEF ::
  "(int \<Rightarrow> int) \<Rightarrow> int \<Rightarrow> int \<Rightarrow> nat \<Rightarrow> addr \<Rightarrow> nat \<Rightarrow> memory \<Rightarrow> fr_sbuff \<Rightarrow> bool
     \<Rightarrow> size_t \<times> fr_sbuff_parse_error \<times> int option \<times> fr_sbuff" where
  "SBUFF_PARSE_INT_DEF to_type min_v max_v max_char buff errno mem sbuff_in no_trailing =
     (let our_in = FR_SBUFF_NO_ADVANCE sbuff_in;
          (len, mem', our_in') =
             fr_sbuff_out_bstrncpy mem buff (of_nat (max_char + 1)) our_in (of_nat max_char)
      in if len = 0 then (0, FR_SBUFF_PARSE_ERROR_NOT_FOUND, None, sbuff_in)
         else
           let (num, consumed, errno') = strtoll (c_string_upto mem' buff (unat len)) errno
           in if consumed = 0 then (0, FR_SBUFF_PARSE_ERROR_TRAILING, None, sbuff_in)
              else if num > max_v \<or> (errno' = EINVAL \<and> num = LLONG_MAX)
                then (0, FR_SBUFF_PARSE_ERROR_NUM_OVERFLOW, Some (to_type max_v), sbuff_in)
              else if no_trailing \<and> mem' (buff + int consumed) \<noteq> NUL
                then (0, FR_SBUFF_PARSE_ERROR_TRAILING, Some (to_type max_v), sbuff_in)
              else if num < min_v \<or> (errno' = EINVAL \<and> num = LLONG_MIN)
                then (0, FR_SBUFF_PARSE_ERROR_NUM_UNDERFLOW, Some (to_type min_v), sbuff_in)
              else (of_nat consumed, FR_SBUFF_PARSE_OK, Some (to_type num),
                    snd (fr_sbuff_advance sbuff_in (of_nat consumed))))"

text \<open>\<^verbatim>\<open>SBUFF_PARSE_UINT_DEF(_name, _type, _max, _max_char)\<close>, in the same way.\<close>

definition SBUFF_PARSE_UINT_DEF ::
  "(int \<Rightarrow> int) \<Rightarrow> int \<Rightarrow> nat \<Rightarrow> addr \<Rightarrow> nat \<Rightarrow> memory \<Rightarrow> fr_sbuff \<Rightarrow> bool
     \<Rightarrow> size_t \<times> fr_sbuff_parse_error \<times> int option \<times> fr_sbuff" where
  "SBUFF_PARSE_UINT_DEF to_type max_v max_char buff errno mem sbuff_in no_trailing =
     (let our_in = FR_SBUFF_NO_ADVANCE sbuff_in;
          (len, mem', our_in') =
             fr_sbuff_out_bstrncpy mem buff (of_nat (max_char + 1)) our_in (of_nat max_char)
      in if len = 0 then (0, FR_SBUFF_PARSE_ERROR_NOT_FOUND, None, sbuff_in)
         else
           let (num, consumed, errno') = strtoull (c_string_upto mem' buff (unat len)) errno
           in if consumed = 0 then (0, FR_SBUFF_PARSE_ERROR_TRAILING, None, sbuff_in)
              else if num > max_v \<or> (errno' = EINVAL \<and> num = ULLONG_MAX)
                then (0, FR_SBUFF_PARSE_ERROR_NUM_OVERFLOW, Some (to_type max_v), sbuff_in)
              else if no_trailing \<and> mem' (buff + int consumed) \<noteq> NUL
                then (0, FR_SBUFF_PARSE_ERROR_TRAILING, Some (to_type max_v), sbuff_in)
              else (of_nat consumed, FR_SBUFF_PARSE_OK, Some (to_type num),
                    snd (fr_sbuff_advance sbuff_in (of_nat consumed))))"

text \<open>The casts \<^verbatim>\<open>(int8_t)\<close> and \<^verbatim>\<open>(uint8_t)\<close>.\<close>

definition to_int8_t :: "int \<Rightarrow> int" where
  "to_int8_t v = sint (word_of_int v :: 8 word)"

definition to_uint8_t :: "int \<Rightarrow> int" where
  "to_uint8_t v = uint (word_of_int v :: 8 word)"

text \<open>Line 624: \<^verbatim>\<open>SBUFF_PARSE_INT_DEF(int8, int8_t, INT8_MIN, INT8_MAX, 2)\<close>.\<close>

definition fr_sbuff_out_int8 ::
  "addr \<Rightarrow> nat \<Rightarrow> memory \<Rightarrow> fr_sbuff \<Rightarrow> bool
     \<Rightarrow> size_t \<times> fr_sbuff_parse_error \<times> int option \<times> fr_sbuff" where
  "fr_sbuff_out_int8 = SBUFF_PARSE_INT_DEF to_int8_t (- 128) 127 2"

text \<open>Line 672: \<^verbatim>\<open>SBUFF_PARSE_UINT_DEF(uint8, uint8_t, UINT8_MAX, 1)\<close>.\<close>

definition fr_sbuff_out_uint8 ::
  "addr \<Rightarrow> nat \<Rightarrow> memory \<Rightarrow> fr_sbuff \<Rightarrow> bool
     \<Rightarrow> size_t \<times> fr_sbuff_parse_error \<times> int option \<times> fr_sbuff" where
  "fr_sbuff_out_uint8 = SBUFF_PARSE_UINT_DEF to_uint8_t 255 1"

subsection \<open>Writing into an sbuff (sbuff.c lines 732 to 744)\<close>

text \<open>
  Modelled from the spec: \<^verbatim>\<open>FR_SBUFF_EXTEND_OR_RETURN\<close> is a macro of sbuff.h, which is
  not under src/. Spec 2 and 7: the growth engine is "invoked when a write would overflow
  the current capacity", and capacity exhaustion is "reported as a length/byte deficit".
  \<open>Some r\<close> is the macro's \<^verbatim>\<open>return r\<close>; \<open>None\<close> lets the caller go on.
\<close>

definition FR_SBUFF_EXTEND_OR_RETURN ::
  "addr \<Rightarrow> memory \<Rightarrow> talloc_heap \<Rightarrow> fr_sbuff list \<Rightarrow> size_t
     \<Rightarrow> int option \<times> memory \<times> talloc_heap \<times> fr_sbuff list" where
  "FR_SBUFF_EXTEND_OR_RETURN answer mem heap chain len =
     (case chain of
        [] \<Rightarrow> (None, mem, heap, [])
      | sbuff # _ \<Rightarrow>
          (let freespace = fr_sbuff_remaining sbuff
           in if len \<le> freespace then (None, mem, heap, chain)
              else (case sb_extend sbuff of
                      No_extend \<Rightarrow> (Some (sint (- (len - freespace))), mem, heap, chain)
                    | Extend_talloc \<Rightarrow>
                        (let (r, mem', heap', chain') =
                               fr_sbuff_extend_talloc answer mem heap chain (len - freespace)
                         in if r = 0
                            then (Some (sint (- (len - freespace))), mem', heap', chain')
                            else (None, mem', heap', chain')))))"

text \<open>
  \<^verbatim>\<open>fr_sbuff_in_strcpy\<close>; \<open>str\<close> is the C string without its terminator, so that
  \<^verbatim>\<open>strlen(str)\<close> is its length and \<^verbatim>\<open>strlcpy\<close> stores it and a terminator.
\<close>

definition fr_sbuff_in_strcpy ::
  "addr \<Rightarrow> memory \<Rightarrow> talloc_heap \<Rightarrow> fr_sbuff list \<Rightarrow> string
     \<Rightarrow> int \<times> memory \<times> talloc_heap \<times> fr_sbuff list" where
  "fr_sbuff_in_strcpy answer mem heap chain str =
     (case chain of
        [] \<Rightarrow> (0, mem, heap, [])
      | sbuff # _ \<Rightarrow>
          if \<not> CHECK_SBUFF_INIT sbuff then (0, mem, heap, chain)
          else
            (let len = (of_nat (length str) :: size_t)
             in case FR_SBUFF_EXTEND_OR_RETURN answer mem heap chain len of
                  (Some r, mem', heap', chain') \<Rightarrow> (r, mem', heap', chain')
                | (None, mem', heap', chain') \<Rightarrow>
                    (case chain' of
                       [] \<Rightarrow> (0, mem', heap', [])
                     | sbuff' # _ \<Rightarrow>
                         (let (r, chain'') = fr_sbuff_advance_chain chain' len
                          in (r, store_bytes mem' (sb_p sbuff') (str @ [NUL]), heap',
                              chain'')))))"

text \<open>
  Modelled from the spec: \<^verbatim>\<open>fr_sbuff_init_talloc\<close> is an inline function of sbuff.h,
  which is not under src/. Spec 3: a root view is created "over a freshly allocated
  dynamic region sized to an initial capacity", with one byte more for the terminator
  (the test reads an array length of 33 for an initial size of 32). \<open>answer\<close> is the
  address the allocator returns.
\<close>

definition fr_sbuff_init_talloc ::
  "addr \<Rightarrow> memory \<Rightarrow> talloc_heap \<Rightarrow> size_t \<Rightarrow> size_t
     \<Rightarrow> int \<times> memory \<times> talloc_heap \<times> fr_sbuff list" where
  "fr_sbuff_init_talloc answer mem heap init max_v =
     (if answer = NULL then (- 1, mem, heap, [])
      else (0, mem(answer := NUL), heap(answer := init + 1),
            [\<lparr>sb_buff = answer, sb_start = answer, sb_end = answer + uint init,
              sb_p = answer, sb_is_const = False, sb_shifted = 0,
              sb_extend = Extend_talloc,
              sb_uctx = \<lparr>tctx_init = init, tctx_max = max_v\<rparr>, sb_m = []\<rparr>]))"

subsection \<open>Search and skip (sbuff.c lines 920 to 984)\<close>

text \<open>
  \<^verbatim>\<open>fr_sbuff_adv_past_str\<close>; \<open>needle\<close> is the address of the needle. \<^verbatim>\<open>memmem\<close> with
  both lengths \<open>len\<close> finds the needle exactly when the \<open>len\<close> bytes are equal. \<open>None\<close>:
  \<^verbatim>\<open>strlen\<close> does not return.
\<close>

definition fr_sbuff_adv_past_str ::
  "memory \<Rightarrow> fr_sbuff \<Rightarrow> addr \<Rightarrow> size_t \<Rightarrow> (bool \<times> fr_sbuff) option" where
  "fr_sbuff_adv_past_str mem sbuff needle len0 =
     (if \<not> CHECK_SBUFF_INIT sbuff then Some (False, sbuff)
      else case (if len0 = SIZE_MAX then strlen mem needle else Some len0) of
             None \<Rightarrow> None
           | Some len \<Rightarrow>
               if sb_p sbuff + uint len \<ge> sb_end sbuff then Some (False, sbuff)
               else if bytes mem (sb_p sbuff) (unat len) \<noteq> bytes mem needle (unat len)
                 then Some (False, sbuff)
               else Some (True, snd (fr_sbuff_advance sbuff len)))"

text \<open>The loop of lines 959 to 961; False is its \<^verbatim>\<open>return false\<close>.\<close>

function strcase_loop :: "memory \<Rightarrow> addr \<Rightarrow> addr \<Rightarrow> addr \<Rightarrow> bool" where
  "strcase_loop mem p n_p e =
     (if p < e
      then (if tolower (mem p) \<noteq> tolower (mem n_p) then False
            else strcase_loop mem (p + 1) (n_p + 1) e)
      else True)"
  by pat_completeness auto
termination
  by (relation "measure (\<lambda>(mem, p, n_p, e). nat (e - p))") auto

definition fr_sbuff_adv_past_strcase ::
  "memory \<Rightarrow> fr_sbuff \<Rightarrow> addr \<Rightarrow> size_t \<Rightarrow> (bool \<times> fr_sbuff) option" where
  "fr_sbuff_adv_past_strcase mem sbuff needle len0 =
     (if \<not> CHECK_SBUFF_INIT sbuff then Some (False, sbuff)
      else case (if len0 = SIZE_MAX then strlen mem needle else Some len0) of
             None \<Rightarrow> None
           | Some len \<Rightarrow>
               if sb_p sbuff + uint len \<ge> sb_end sbuff then Some (False, sbuff)
               else if \<not> strcase_loop mem (sb_p sbuff) needle (sb_p sbuff + uint len)
                 then Some (False, sbuff)
               else Some (True, snd (fr_sbuff_advance sbuff len)))"

text \<open>
  The loop of line 981: the byte tested is the one at \<^verbatim>\<open>sbuff->p\<close>, which the loop does
  not move; \<open>p\<close> is the local pointer.
\<close>

function whitespace_loop :: "memory \<Rightarrow> fr_sbuff \<Rightarrow> addr \<Rightarrow> addr" where
  "whitespace_loop mem sbuff p =
     (if p < sb_end sbuff \<and> isspace (mem (sb_p sbuff)) then whitespace_loop mem sbuff (p + 1)
      else p)"
  by pat_completeness auto
termination
  by (relation "measure (\<lambda>(mem, sbuff, p). nat (sb_end sbuff - p))") auto

definition fr_sbuff_adv_past_whitespace :: "memory \<Rightarrow> fr_sbuff \<Rightarrow> size_t \<times> fr_sbuff" where
  "fr_sbuff_adv_past_whitespace mem sbuff =
     (if \<not> CHECK_SBUFF_INIT sbuff then (0, sbuff)
      else let p = whitespace_loop mem sbuff (sb_p sbuff);
               (r, sbuff') = fr_sbuff_set sbuff p
           in (word_of_int r, sbuff'))"

declare copy_while.simps [simp del]
declare strcase_loop.simps [simp del]
declare whitespace_loop.simps [simp del]

text \<open>
  Modelled from the spec: \<^verbatim>\<open>fr_sbuff_init\<close> is a macro of sbuff.h, which is not under
  src/. Spec 3: a root view "over a fixed external region"; the test
  \<^verbatim>\<open>test_parse_init\<close> reads \<^verbatim>\<open>start == in\<close>, \<^verbatim>\<open>p == in\<close> and \<^verbatim>\<open>end == in + len\<close>.
\<close>

definition fr_sbuff_init :: "addr \<Rightarrow> size_t \<Rightarrow> fr_sbuff" where
  "fr_sbuff_init a len =
     \<lparr>sb_buff = a, sb_start = a, sb_end = a + uint len, sb_p = a, sb_is_const = True,
      sb_shifted = 0, sb_extend = No_extend,
      sb_uctx = \<lparr>tctx_init = 0, tctx_max = 0\<rparr>, sb_m = []\<rparr>"

text \<open>A memory that holds the C string \<open>xs\<close> at \<open>a\<close> and NUL bytes everywhere else.\<close>

definition memory_of :: "addr \<Rightarrow> string \<Rightarrow> memory" where
  "memory_of a xs = store_bytes (\<lambda>_. NUL) a xs"

subsection \<open>The test \<^verbatim>\<open>test_talloc_extend\<close> (sbuff_tests.c lines 157 to 233)\<close>

text \<open>
  What the test reads after each step: \<^verbatim>\<open>fr_sbuff_used\<close>, the array length of
  \<^verbatim>\<open>sbuff->buff\<close>, and the bytes from \<^verbatim>\<open>fr_sbuff_start\<close> to the cursor.
\<close>

definition observe :: "memory \<Rightarrow> talloc_heap \<Rightarrow> fr_sbuff list \<Rightarrow> size_t \<times> size_t \<times> string" where
  "observe mem heap chain =
     (case chain of
        [] \<Rightarrow> (0, 0, [])
      | sbuff # _ \<Rightarrow>
          (fr_sbuff_used sbuff, talloc_array_length heap (sb_buff sbuff),
           bytes mem (sb_start sbuff) (unat (fr_sbuff_used sbuff))))"

text \<open>
  A step of the test is a call of \<^verbatim>\<open>fr_sbuff_trim_talloc\<close> or of \<^verbatim>\<open>fr_sbuff_in_strcpy\<close>,
  paired with the address the allocator answers with if the step reallocates. The run
  lists the return value of every step and what the test reads after it.
\<close>

datatype test_step = Trim_talloc | In_strcpy string

fun run_steps ::
  "memory \<Rightarrow> talloc_heap \<Rightarrow> fr_sbuff list \<Rightarrow> (addr \<times> test_step) list
     \<Rightarrow> (int \<times> size_t \<times> size_t \<times> string) list" where
  "run_steps mem heap chain [] = []"
| "run_steps mem heap chain ((answer, Trim_talloc) # rest) =
     (let (r, mem', heap', chain') = fr_sbuff_trim_talloc answer mem heap chain
      in (r, observe mem' heap' chain') # run_steps mem' heap' chain' rest)"
| "run_steps mem heap chain ((answer, In_strcpy str) # rest) =
     (let (r, mem', heap', chain') = fr_sbuff_in_strcpy answer mem heap chain str
      in (r, observe mem' heap' chain') # run_steps mem' heap' chain' rest)"

definition test_talloc_extend :: "(int \<times> size_t \<times> size_t \<times> string) list" where
  "test_talloc_extend =
     (let (r, mem, heap, chain) = fr_sbuff_init_talloc 4096 (\<lambda>_. NUL) (\<lambda>_. 0) 32 50
      in (r, observe mem heap chain) #
         run_steps mem heap chain
           [(8192, Trim_talloc),
            (4096, In_strcpy ''0123456789''),
            (8192, Trim_talloc),
            (4096, In_strcpy ''0123456789''),
            (8192, Trim_talloc),
            (4096, In_strcpy ''012345678901234''),
            (8192, In_strcpy ''A''),
            (8192, In_strcpy ''BCDE''),
            (8192, In_strcpy ''F''),
            (4096, In_strcpy ''GHIJKLMNO''),
            (4096, In_strcpy ''P''),
            (8192, Trim_talloc)])"

subsection \<open>The tests of a hierarchy (sbuff_tests.c lines 264 to 340)\<close>

text \<open>
  \<^verbatim>\<open>test_talloc_extend_multi_level\<close>: what the test reads after the allocation, after the
  copy of the view and after the write through the copy (return value, then bytes used,
  array length and content of a view), and the starts, ends and cursors of the child
  and of the parent at the end.
\<close>

definition test_talloc_extend_multi_level ::
  "(int \<times> size_t \<times> size_t \<times> string) \<times> (size_t \<times> size_t \<times> string) \<times>
   (int \<times> (size_t \<times> size_t \<times> string) \<times> (size_t \<times> size_t \<times> string)) \<times>
   addr list \<times> addr list \<times> addr list" where
  "test_talloc_extend_multi_level =
     (let (r0, mem0, heap0, c0) = fr_sbuff_init_talloc 4096 (\<lambda>_. NUL) (\<lambda>_. 0) 0 50;
          c1 = FR_SBUFF_COPY c0;
          (r1, mem1, heap1, c2) = fr_sbuff_in_strcpy 8192 mem0 heap0 c1 ''A''
      in ((r0, observe mem0 heap0 c0),
          observe mem0 heap0 c1,
          (r1, observe mem1 heap1 (tl c2), observe mem1 heap1 c2),
          map sb_start c2, map sb_end c2, map sb_p c2))"

text \<open>
  \<^verbatim>\<open>test_talloc_extend_with_marker\<close>: the numbers the test checks, in its order, and the
  three strings it compares. \<^verbatim>\<open>marker_0\<close> is the marker of the parent, \<^verbatim>\<open>marker_1\<close>
  that of the child.
\<close>

definition test_talloc_extend_with_marker :: "int list \<times> string list" where
  "test_talloc_extend_with_marker =
     (let (r0, mem0, heap0, c0) = fr_sbuff_init_talloc 4096 (\<lambda>_. NUL) (\<lambda>_. 0) 0 50;
          (r1, mem1, heap1, c1) = fr_sbuff_in_strcpy 8192 mem0 heap0 c0 ''A'';
          c2 = fr_sbuff_marker c1;
          (r2, mem2, heap2, c3) = fr_sbuff_in_strcpy 4096 mem1 heap1 c2 ''B'';
          c4 = fr_sbuff_marker (FR_SBUFF_COPY c3);
          (r3, mem3, heap3, c5) = fr_sbuff_in_strcpy 8192 mem2 heap2 c4 ''C'';
          used = (\<lambda>c. uint (fr_sbuff_used (hd c)));
          len = (\<lambda>heap c. uint (talloc_array_length heap (sb_buff (hd c))));
          marker = (\<lambda>c. hd (sb_m (hd c)));
          content = (\<lambda>mem c. bytes mem (sb_start (hd c)) (unat (fr_sbuff_used (hd c))))
      in ([r1, used c1, len heap1 c1,
           marker c2 - sb_start (hd c2),
           r2, used c3, len heap2 c3,
           marker c3 - sb_start (hd c3),
           sb_p (hd (tl c4)) - sb_start (hd c4),
           marker c4 - sb_start (hd c4),
           marker c4 - sb_start (hd (tl c4)),
           r3,
           sb_buff (hd (tl c5)) - sb_buff (hd c5),
           sb_p (hd (tl c5)) - sb_start (hd c5),
           marker c5 - sb_start (hd c5),
           marker c5 - sb_start (hd (tl c5)),
           used (tl c5), len heap3 (tl c5)],
          [content mem1 c1, content mem2 c3, content mem3 c5]))"

subsection \<open>The invariant of a cursor\<close>

text \<open>The invariant of the data model: \<^verbatim>\<open>start <= p <= end\<close>.\<close>

definition view_inv :: "fr_sbuff \<Rightarrow> bool" where
  "view_inv s = (sb_start s \<le> sb_p s \<and> sb_p s \<le> sb_end s)"

text \<open>
  A hierarchy is in order when every view keeps the invariant and the window of every
  ancestor holds the start of the view operated on.
\<close>

definition chain_inv :: "fr_sbuff list \<Rightarrow> bool" where
  "chain_inv chain =
     (list_all view_inv chain \<and>
      list_all (\<lambda>v. sb_start v \<le> sb_start (hd chain) \<and> sb_start (hd chain) \<le> sb_end v)
        (tl chain))"

subsection \<open>The positions that constrain a shift\<close>

text \<open>
  The cursors and markers of a hierarchy, in the order the loops of \<^verbatim>\<open>fr_sbuff_shift\<close>
  visit them, and the least of \<open>k\<close> and of their distances from \<open>buff\<close>.
\<close>

definition positions :: "fr_sbuff list \<Rightarrow> addr list" where
  "positions chain = concat (map (\<lambda>s. sb_p s # sb_m s) chain)"

definition least_distance :: "addr \<Rightarrow> int \<Rightarrow> addr list \<Rightarrow> int" where
  "least_distance buff k qs = foldl (\<lambda>m q. min m (q - buff)) k qs"

section \<open>Theorems\<close>

lemmas view_simps =
  fr_sbuff_init_def CHECK_SBUFF_INIT_def NULL_def NUL_def SIZE_MAX_def fr_sbuff_remaining_def
  fr_sbuff_used_def fr_sbuff_advance_def fr_sbuff_set_def FR_SBUFF_NO_ADVANCE_def

lemmas mem_simps = memory_of_def store_bytes_def memcpy_def bytes_def c_string_upto_def

subsection \<open>Words\<close>

lemma sint_word_of_int_64:
  assumes "- (2 ^ 63) \<le> k" and "k < 2 ^ 63"
  shows "sint (word_of_int k :: 64 word) = k"
  using assms by (simp add: sint_sbintrunc' signed_take_bit_int_eq_self)

lemma word_of_int_ge_one:
  assumes "1 \<le> x" and "x < 2 ^ 64"
  shows "\<not> (1 :: 64 word) > word_of_int x"
proof -
  have "uint (word_of_int x :: 64 word) = x"
    using assms by (simp add: uint_word_of_int take_bit_int_eq_self)
  then have "uint (1 :: 64 word) \<le> uint (word_of_int x :: 64 word)"
    using assms by simp
  then show ?thesis
    by (simp add: word_le_def word_less_def not_less)
qed

subsection \<open>Parsing integers\<close>

text \<open>
  C1. For an sbuff whose remaining content begins with "128", the claim has
  \<^verbatim>\<open>fr_sbuff_out_int8\<close> return 0, classify the token as a numeric overflow, store 127 and
  leave the cursor where it was. The function made by line 624 copies at most
  \<^verbatim>\<open>_max_char = 2\<close> bytes into its scratch array, so \<^verbatim>\<open>strtoll\<close> reads "12": whatever
  \<^verbatim>\<open>errno\<close> and \<^verbatim>\<open>no_trailing\<close> are, the function returns 2, classifies the parse as a
  success, stores 12 and moves the cursor by 2.
\<close>

theorem fr_sbuff_out_int8_128:
  "fr_sbuff_out_int8 buff errno (memory_of 100 ''128'') (fr_sbuff_init 100 3) no_trailing
     = (2, FR_SBUFF_PARSE_OK, Some 12, (fr_sbuff_init 100 3)\<lparr>sb_p := 102\<rparr>)"
  by (simp add: fr_sbuff_out_int8_def SBUFF_PARSE_INT_DEF_def fr_sbuff_out_bstrncpy_def
      STRNCPY_TRIM_LEN_def view_simps mem_simps strtoll_def subject_sequence_def isspace_def
      isdigit_def decimal_def LLONG_MAX_def LLONG_MIN_def EINVAL_def ERANGE_def
      to_int8_t_def upt_rec)

lemma isdigit_int: "isdigit c \<Longrightarrow> 48 \<le> (of_char c :: int) \<and> (of_char c :: int) \<le> 57"
proof -
  assume "isdigit c"
  then have "48 \<le> (of_char c :: nat) \<and> (of_char c :: nat) \<le> 57"
    by (simp add: isdigit_def)
  then have "int 48 \<le> int (of_char c) \<and> int (of_char c) \<le> int 57"
    by linarith
  then show ?thesis
    by (simp add: of_nat_of_char)
qed

lemma isdigit_not_space: "isdigit c \<Longrightarrow> \<not> isspace c"
  by (auto simp: isdigit_def isspace_def)

lemma isdigit_not_sign: "isdigit c \<Longrightarrow> c \<noteq> CHR ''-'' \<and> c \<noteq> CHR ''+''"
  by (auto simp: isdigit_def)

text \<open>On a string of at most one character \<^verbatim>\<open>strtoull\<close> converts a digit or nothing.\<close>

lemma strtoull_short:
  assumes "length s \<le> 1" and "strtoull s errno = (num, consumed, errno')"
  shows "consumed \<le> 1 \<and>
         (consumed \<noteq> 0 \<longrightarrow>
            (\<exists>c. s = [c] \<and> isdigit c \<and> num = of_char c - 48) \<and> errno' = errno)"
proof (cases s)
  case Nil
  with assms(2) show ?thesis
    by (simp add: strtoull_def subject_sequence_def)
next
  case (Cons c cs)
  with assms(1) have s: "s = [c]"
    by simp
  show ?thesis
  proof (cases "isdigit c")
    case True
    then have ss: "subject_sequence [c] = (False, [c], 1)"
      by (simp add: subject_sequence_def Let_def isdigit_not_space isdigit_not_sign)
    from isdigit_int [OF True] have "decimal [c] \<le> 9" "0 \<le> decimal [c]"
      by (simp_all add: decimal_def)
    with assms(2) s ss True show ?thesis
      by (simp add: strtoull_def ULLONG_MAX_def decimal_def)
  next
    case False
    then have "fst (snd (subject_sequence [c])) = []"
      by (auto simp: subject_sequence_def Let_def)
    with assms(2) s show ?thesis
      by (auto simp: strtoull_def split: prod.splits)
  qed
qed

lemma STRNCPY_TRIM_LEN_one:
  assumes "sb_p s \<le> sb_end s"
  shows "STRNCPY_TRIM_LEN 1 s 1 = (if sb_p s = sb_end s then 0 else 1)"
  using assms by (auto simp: STRNCPY_TRIM_LEN_def SIZE_MAX_def Let_def)

lemma to_uint8_t_small: "0 \<le> v \<Longrightarrow> v \<le> 9 \<Longrightarrow> to_uint8_t v = v"
  by (simp add: to_uint8_t_def uint_word_of_int take_bit_int_eq_self)

text \<open>
  C10. The scratch array of \<^verbatim>\<open>fr_sbuff_out_uint8\<close> holds one candidate character
  (\<^verbatim>\<open>_max_char = 1\<close>). So on every view whose cursor is not past its end (and whose
  length fits a \<^verbatim>\<open>size_t\<close>), for every memory, \<^verbatim>\<open>errno\<close> and \<^verbatim>\<open>no_trailing\<close>: the function
  consumes at most one byte and moves the cursor by what it consumed; it never reports an
  overflow; and when it stores a value, it has consumed exactly one byte, reports
  success, and the value is the single decimal digit at the cursor, between 0 and 9.
\<close>

theorem fr_sbuff_out_uint8_single_digit:
  assumes le: "sb_p sbuff_in \<le> sb_end sbuff_in"
    and fits: "sb_end sbuff_in - sb_p sbuff_in < 2 ^ 64"
    and run: "fr_sbuff_out_uint8 buff errno mem sbuff_in no_trailing = (r, err, out, sbuff_in')"
  shows "unat r \<le> 1 \<and> sbuff_in' = sbuff_in\<lparr>sb_p := sb_p sbuff_in + uint r\<rparr> \<and>
         (case out of
            None \<Rightarrow> r = 0 \<and> err \<noteq> FR_SBUFF_PARSE_OK \<and> err \<noteq> FR_SBUFF_PARSE_ERROR_NUM_OVERFLOW
          | Some v \<Rightarrow> r = 1 \<and> err = FR_SBUFF_PARSE_OK \<and> isdigit (mem (sb_p sbuff_in)) \<and>
                      v = of_char (mem (sb_p sbuff_in)) - 48 \<and> 0 \<le> v \<and> v \<le> 9)"
proof -
  define our_in where "our_in = FR_SBUFF_NO_ADVANCE sbuff_in"
  have our: "sb_p our_in = sb_p sbuff_in" "sb_end our_in = sb_end sbuff_in"
    by (simp_all add: our_in_def FR_SBUFF_NO_ADVANCE_def)
  obtain len mem' our_in' where copy:
    "fr_sbuff_out_bstrncpy mem buff 2 our_in 1 = (len, mem', our_in')"
    by (cases "fr_sbuff_out_bstrncpy mem buff 2 our_in 1") auto
  have unfolded: "(r, err, out, sbuff_in') =
     (if len = 0 then (0, FR_SBUFF_PARSE_ERROR_NOT_FOUND, None, sbuff_in)
      else
        let (num, consumed, errno') = strtoull (c_string_upto mem' buff (unat len)) errno
        in if consumed = 0 then (0, FR_SBUFF_PARSE_ERROR_TRAILING, None, sbuff_in)
           else if num > 255 \<or> (errno' = EINVAL \<and> num = ULLONG_MAX)
             then (0, FR_SBUFF_PARSE_ERROR_NUM_OVERFLOW, Some (to_uint8_t 255), sbuff_in)
           else if no_trailing \<and> mem' (buff + int consumed) \<noteq> NUL
             then (0, FR_SBUFF_PARSE_ERROR_TRAILING, Some (to_uint8_t 255), sbuff_in)
           else (of_nat consumed, FR_SBUFF_PARSE_OK, Some (to_uint8_t num),
                 snd (fr_sbuff_advance sbuff_in (of_nat consumed))))"
    using run copy
    by (simp add: fr_sbuff_out_uint8_def SBUFF_PARSE_UINT_DEF_def our_in_def [symmetric])
  show ?thesis
  proof (cases "len = 0")
    case True
    with unfolded show ?thesis
      by simp
  next
    case False
    with copy have chk: "CHECK_SBUFF_INIT our_in"
      by (auto simp: fr_sbuff_out_bstrncpy_def split: if_splits)
    with copy have len_eq: "len = STRNCPY_TRIM_LEN 1 our_in 1"
      and mem'_eq: "mem' = (memcpy mem buff (sb_p our_in) len)(buff + uint len := NUL)"
      by (auto simp: fr_sbuff_out_bstrncpy_def Let_def)
    from le our have "sb_p our_in \<le> sb_end our_in"
      by simp
    from STRNCPY_TRIM_LEN_one [OF this] len_eq False
    have len1: "len = 1" and lt: "sb_p sbuff_in < sb_end sbuff_in"
      using le our by (auto split: if_splits)
    have at0: "mem' buff = mem (sb_p sbuff_in)" and at1: "mem' (buff + 1) = NUL"
      by (simp_all add: mem'_eq len1 memcpy_def our)
    define s where "s = c_string_upto mem' buff (unat len)"
    have s_eq: "s = (if mem (sb_p sbuff_in) = NUL then [] else [mem (sb_p sbuff_in)])"
      by (simp add: s_def c_string_upto_def bytes_def len1 at0)
    then have short: "length s \<le> 1"
      by simp
    obtain num consumed errno' where st: "strtoull s errno = (num, consumed, errno')"
      by (cases "strtoull s errno") auto
    note facts = strtoull_short [OF short st]
    show ?thesis
    proof (cases "consumed = 0")
      case True
      with unfolded False st show ?thesis
        by (simp add: s_def [symmetric])
    next
      case nz: False
      with facts have c1: "consumed = 1"
        by simp
      from facts nz obtain c where c: "s = [c]" "isdigit c" "num = of_char c - 48"
        and e: "errno' = errno"
        by auto
      from c(1) s_eq have cm: "c = mem (sb_p sbuff_in)"
        by (auto split: if_splits)
      from isdigit_int [OF c(2)] c(3) have rng: "0 \<le> num" "num \<le> 9"
        by simp_all
      have adv: "snd (fr_sbuff_advance sbuff_in 1) = sbuff_in\<lparr>sb_p := sb_p sbuff_in + 1\<rparr>"
        using word_of_int_ge_one [of "sb_end sbuff_in - sb_p sbuff_in"] lt fits
        by (simp add: fr_sbuff_advance_def fr_sbuff_remaining_def Let_def)
      from unfolded False st c1 rng at1 adv c cm show ?thesis
        by (simp add: s_def [symmetric] ULLONG_MAX_def to_uint8_t_small)
    qed
  qed
qed

text \<open>
  The theorem at the token "255": one byte is consumed and the value stored is 2, with
  a success classification.
\<close>

theorem fr_sbuff_out_uint8_single_digit_witness:
  "sb_p (fr_sbuff_init 100 3) \<le> sb_end (fr_sbuff_init 100 3) \<and>
   sb_end (fr_sbuff_init 100 3) - sb_p (fr_sbuff_init 100 3) < 2 ^ 64 \<and>
   fr_sbuff_out_uint8 1000 0 (memory_of 100 ''255'') (fr_sbuff_init 100 3) False
     = (1, FR_SBUFF_PARSE_OK, Some 2, (fr_sbuff_init 100 3)\<lparr>sb_p := 101\<rparr>) \<and>
   isdigit (memory_of 100 ''255'' (sb_p (fr_sbuff_init 100 3))) \<and>
   (2 :: int) = of_char (memory_of 100 ''255'' (sb_p (fr_sbuff_init 100 3))) - 48"
proof -
  have run:
    "fr_sbuff_out_uint8 1000 0 (memory_of 100 ''255'') (fr_sbuff_init 100 3) False
       = (1, FR_SBUFF_PARSE_OK, Some 2, (fr_sbuff_init 100 3)\<lparr>sb_p := 101\<rparr>)"
    by (simp add: fr_sbuff_out_uint8_def SBUFF_PARSE_UINT_DEF_def fr_sbuff_out_bstrncpy_def
        STRNCPY_TRIM_LEN_def view_simps mem_simps strtoull_def subject_sequence_def
        isspace_def isdigit_def decimal_def ULLONG_MAX_def EINVAL_def ERANGE_def
        to_uint8_t_def upt_rec)
  have h1: "sb_p (fr_sbuff_init 100 3) \<le> sb_end (fr_sbuff_init 100 3)"
    and h2: "sb_end (fr_sbuff_init 100 3) - sb_p (fr_sbuff_init 100 3) < 2 ^ 64"
    by (simp_all add: fr_sbuff_init_def)
  from fr_sbuff_out_uint8_single_digit [OF h1 h2 run]
  have "isdigit (memory_of 100 ''255'' (sb_p (fr_sbuff_init 100 3))) \<and>
        (2 :: int) = of_char (memory_of 100 ''255'' (sb_p (fr_sbuff_init 100 3))) - 48"
    by simp
  with h1 h2 run show ?thesis
    by (simp only: simp_thms)
qed

subsection \<open>More on words\<close>

lemma uint_word_of_int_id:
  "0 \<le> x \<Longrightarrow> x < 2 ^ 64 \<Longrightarrow> uint (word_of_int x :: 64 word) = x"
  by (simp add: uint_word_of_int take_bit_int_eq_self)

lemma uint_lt_2p64: "uint (w :: 64 word) < 2 ^ 64"
  using uint_bounded [of w] by simp

lemma ptr_add_id: "0 \<le> p \<Longrightarrow> p + uint n < 2 ^ 64 \<Longrightarrow> ptr_add p n = p + uint n"
  by (simp add: ptr_add_def)

lemma uint_minus_one: "uint (- 1 :: 64 word) = 18446744073709551615"
  by (simp add: uint_word_ariths)

subsection \<open>Rebasing: \<^verbatim>\<open>fr_sbuff_update\<close>\<close>

text \<open>
  C2. The claim has \<^verbatim>\<open>fr_sbuff_update\<close> rebase every cursor and marker of the hierarchy to
  its old offset and leave each of them at most at its view's new end, clamping those
  that would pass it. Take one view with its cursor at offset 2 and a marker at offset 5,
  moved to a buffer at 200 with \<^verbatim>\<open>new_len = 3\<close>. The function returns -1, but line 101
  assigns \<^verbatim>\<open>sbuff_i->p\<close> where the marker was tested: the marker keeps the position 205,
  beyond the new end 203, and the cursor, which was in range at offset 2, is moved to
  the end.
\<close>

theorem fr_sbuff_update_marker_past_end:
  "fr_sbuff_update
       [\<lparr>sb_buff = 100, sb_start = 100, sb_end = 110, sb_p = 102, sb_is_const = False,
         sb_shifted = 0, sb_extend = No_extend,
         sb_uctx = \<lparr>tctx_init = 0, tctx_max = 0\<rparr>, sb_m = [105]\<rparr>] 200 3
   = (- 1,
       [\<lparr>sb_buff = 200, sb_start = 200, sb_end = 203, sb_p = 203, sb_is_const = False,
         sb_shifted = 0, sb_extend = No_extend,
         sb_uctx = \<lparr>tctx_init = 0, tctx_max = 0\<rparr>, sb_m = [205]\<rparr>])"
  by (simp add: fr_sbuff_update_def view_simps update_ptr_def)

subsection \<open>Compaction: \<^verbatim>\<open>fr_sbuff_shift\<close>\<close>

text \<open>
  C6. The claim has every call of \<^verbatim>\<open>fr_sbuff_shift\<close> return the minimum of the requested
  shift and of the distances of all cursors and markers of the hierarchy from the buffer
  start. The function measures from \<^verbatim>\<open>sbuff->start\<close> of the view it is called on. Take a
  buffer at 100, a parent view with its cursor at 103 and a marker at 101, and a child
  view that starts at 102 (where the parent's cursor stood when the child was made, as
  in \<^verbatim>\<open>test_talloc_extend_with_marker\<close>) with its cursor at 103. For a requested shift
  of 1 the marker lies in front of \<^verbatim>\<open>buff\<close>, the subtraction of line 132 wraps in
  \<^verbatim>\<open>size_t\<close>, and the function returns \<open>2^64 - 1\<close>.
\<close>

theorem fr_sbuff_shift_marker_before_start:
  "fst (fr_sbuff_shift mem
       [\<lparr>sb_buff = 100, sb_start = 102, sb_end = 104, sb_p = 103, sb_is_const = False,
         sb_shifted = 0, sb_extend = No_extend,
         sb_uctx = \<lparr>tctx_init = 0, tctx_max = 0\<rparr>, sb_m = []\<rparr>,
        \<lparr>sb_buff = 100, sb_start = 100, sb_end = 104, sb_p = 103, sb_is_const = False,
         sb_shifted = 0, sb_extend = No_extend,
         sb_uctx = \<lparr>tctx_init = 0, tctx_max = 0\<rparr>, sb_m = [101]\<rparr>] 1)
   = 18446744073709551615"
  by (simp add: fr_sbuff_shift_def view_simps update_max_shift_def ptr_add_def Let_def)

text \<open>
  When no cursor or marker of the hierarchy lies in front of the start of the view
  operated on, and that start plus the requested shift is an address, the loops of lines
  149 to 159 compute the least of the requested shift and of the distances of the
  positions from that start, and the function returns it, having moved every position
  by it; a least distance of 0 returns 0 and changes nothing.
\<close>

lemma update_max_shift_min:
  assumes "buff \<le> field" and "0 \<le> buff" and "buff + uint k < 2 ^ 64"
  shows "uint (update_max_shift buff k field) = min (uint k) (field - buff)"
proof -
  have pa: "ptr_add buff k = buff + uint k"
    using assms(2,3) by (rule ptr_add_id)
  show ?thesis
  proof (cases "buff + uint k > field")
    case False
    then show ?thesis
      by (simp add: update_max_shift_def pa min_def)
  next
    case True
    have "k - word_of_int ((buff + uint k) - field)
            = (word_of_int (uint k - ((buff + uint k) - field)) :: 64 word)"
      by (simp add: wi_hom_syms)
    also have "uint k - ((buff + uint k) - field) = field - buff"
      by simp
    finally have eq: "k - word_of_int ((buff + uint k) - field)
                        = (word_of_int (field - buff) :: 64 word)" .
    have "field - buff < 2 ^ 64"
      using True uint_lt_2p64 [of k] by linarith
    with assms(1) have "uint (word_of_int (field - buff) :: 64 word) = field - buff"
      by (intro uint_word_of_int_id) simp_all
    with eq have "uint (k - word_of_int ((buff + uint k) - field) :: 64 word) = field - buff"
      by (simp only:)
    with True show ?thesis
      by (simp add: update_max_shift_def pa min_def del: add_diff_eq diff_add_eq)
  qed
qed

lemma least_distance_le: "least_distance buff k qs \<le> k"
  unfolding least_distance_def
proof (induction qs arbitrary: k)
  case Nil
  then show ?case by simp
next
  case (Cons q qs)
  have "foldl (\<lambda>m q. min m (q - buff)) (min k (q - buff)) qs \<le> min k (q - buff)"
    by (rule Cons.IH)
  then show ?case
    by simp
qed

lemma least_distance_nonneg:
  "0 \<le> k \<Longrightarrow> \<forall>q\<in>set qs. buff \<le> q \<Longrightarrow> 0 \<le> least_distance buff k qs"
  unfolding least_distance_def
  by (induction qs arbitrary: k) auto

lemma least_distance_zero:
  "\<forall>q\<in>set qs. buff \<le> q \<Longrightarrow> least_distance buff 0 qs = 0"
  using least_distance_le [of buff 0 qs] least_distance_nonneg [of 0 qs buff]
  by simp

lemma max_shift_markers_min:
  assumes "\<forall>q\<in>set ms. buff \<le> q" and "k \<noteq> 0" and "0 \<le> buff" and "buff + uint k < 2 ^ 64"
  shows "max_shift_markers buff k ms =
         (if least_distance buff (uint k) ms = 0 then None
          else Some (word_of_int (least_distance buff (uint k) ms)))"
  using assms
proof (induction ms arbitrary: k)
  case Nil
  then show ?case
    by (simp add: least_distance_def uint_0_iff)
next
  case (Cons q ms)
  let ?k = "update_max_shift buff k q"
  from Cons.prems have u: "uint ?k = min (uint k) (q - buff)"
    by (simp add: update_max_shift_min)
  with Cons.prems(4) have b: "buff + uint ?k < 2 ^ 64"
    by simp
  have step: "least_distance buff (uint k) (q # ms) = least_distance buff (uint ?k) ms"
    by (simp add: least_distance_def u)
  show ?case
  proof (cases "?k = 0")
    case True
    then have "uint ?k = 0"
      by simp
    with Cons.prems have "least_distance buff (uint ?k) ms = 0"
      by (simp add: least_distance_zero)
    with True step show ?thesis
      by (simp add: Let_def)
  next
    case False
    from Cons.prems(1) have "\<forall>q\<in>set ms. buff \<le> q"
      by simp
    from Cons.IH [OF this False Cons.prems(3) b] False step show ?thesis
      by (simp add: Let_def)
  qed
qed

lemma max_shift_chain_min:
  assumes "\<forall>q\<in>set (positions chain). buff \<le> q" and "chain \<noteq> []"
    and "0 \<le> buff" and "buff + uint k < 2 ^ 64"
  shows "max_shift_chain buff k chain =
         (if least_distance buff (uint k) (positions chain) = 0 then None
          else Some (word_of_int (least_distance buff (uint k) (positions chain))))"
  using assms
proof (induction chain arbitrary: k)
  case Nil
  then show ?case by simp
next
  case (Cons s chain)
  let ?k1 = "update_max_shift buff k (sb_p s)"
  let ?rest = "sb_m s @ positions chain"
  from Cons.prems have ge: "buff \<le> sb_p s" "\<forall>q\<in>set (sb_m s). buff \<le> q"
    "\<forall>q\<in>set (positions chain). buff \<le> q"
    by (auto simp: positions_def)
  have u: "uint ?k1 = min (uint k) (sb_p s - buff)"
    using ge Cons.prems(3,4) by (simp add: update_max_shift_min)
  with Cons.prems(4) have b1: "buff + uint ?k1 < 2 ^ 64"
    by simp
  have pos: "positions (s # chain) = sb_p s # sb_m s @ positions chain"
    by (simp add: positions_def)
  have step: "least_distance buff (uint k) (positions (s # chain))
                = least_distance buff (least_distance buff (uint ?k1) (sb_m s)) (positions chain)"
    by (simp add: pos least_distance_def u)
  show ?case
  proof (cases "?k1 = 0")
    case True
    then have "uint ?k1 = 0"
      by simp
    with ge have "least_distance buff (least_distance buff (uint ?k1) (sb_m s)) (positions chain) = 0"
      by (simp add: least_distance_zero)
    with True step show ?thesis
      by (simp add: Let_def)
  next
    case False
    note k1 = False
    let ?d = "least_distance buff (uint ?k1) (sb_m s)"
    have mm: "max_shift_markers buff ?k1 (sb_m s) =
                (if ?d = 0 then None else Some (word_of_int ?d))"
      by (rule max_shift_markers_min [OF ge(2) k1 Cons.prems(3) b1])
    show ?thesis
    proof (cases "?d = 0")
      case True
      with ge have "least_distance buff ?d (positions chain) = 0"
        by (simp add: least_distance_zero)
      with True mm k1 step show ?thesis
        by (simp add: Let_def)
    next
      case False
      have d_le: "?d \<le> uint ?k1"
        by (rule least_distance_le)
      have d_rng: "0 \<le> ?d" "?d < 2 ^ 64"
        using least_distance_nonneg [of "uint ?k1" "sb_m s" buff] ge d_le uint_lt_2p64 [of ?k1]
        by auto
      then have ud: "uint (word_of_int ?d :: 64 word) = ?d"
        by (simp add: uint_word_of_int_id)
      with d_le b1 have b2: "buff + uint (word_of_int ?d :: 64 word) < 2 ^ 64"
        by simp
      show ?thesis
      proof (cases chain)
        case Nil
        with False mm k1 step show ?thesis
          by (simp add: Let_def positions_def least_distance_def)
      next
        case (Cons a list)
        then have ne: "chain \<noteq> []"
          by simp
        from Cons.IH [OF ge(3) ne Cons.prems(3) b2] False mm k1 step ud show ?thesis
          by (simp add: Let_def)
      qed
    qed
  qed
qed

lemma least_distance_Min:
  "least_distance buff k qs = Min (insert k ((\<lambda>q. q - buff) ` set qs))"
  unfolding least_distance_def
proof (induction qs arbitrary: k)
  case Nil
  then show ?case by simp
next
  case (Cons q qs)
  let ?S = "(\<lambda>q. q - buff) ` set qs"
  have "Min (insert (min k (q - buff)) ?S) = Min (insert k (insert (q - buff) ?S))"
  proof (cases "?S = {}")
    case True
    then show ?thesis
      by simp
  next
    case False
    then show ?thesis
      by (simp add: min.assoc)
  qed
  with Cons.IH [of "min k (q - buff)"] show ?case
    by simp
qed

lemma fr_sbuff_shift_least_distance:
  assumes chk: "CHECK_SBUFF_INIT sbuff"
    and ge: "\<forall>q\<in>set (positions (sbuff # parents)). sb_start sbuff \<le> q"
    and nowrap: "0 \<le> sb_start sbuff" "sb_start sbuff + uint shift < 2 ^ 64"
    and d: "d = least_distance (sb_start sbuff) (uint shift) (positions (sbuff # parents))"
  shows "fr_sbuff_shift mem (sbuff # parents) shift =
           (if d = 0 then (0, mem, sbuff # parents)
            else (word_of_int d,
                  (if mem (sb_p sbuff) = NUL \<and> \<not> sb_is_const sbuff
                   then mem(shift_ptr (sb_start sbuff) (word_of_int d) (sb_p sbuff) := NUL)
                   else mem),
                  shift_chain (sb_start sbuff) (word_of_int d) (sbuff # parents)))
         \<and> uint (word_of_int d :: size_t) = d"
proof -
  have rng: "0 \<le> d" "d < 2 ^ 64"
    using least_distance_nonneg [of "uint shift" "positions (sbuff # parents)" "sb_start sbuff"]
      least_distance_le [of "sb_start sbuff" "uint shift" "positions (sbuff # parents)"]
      uint_lt_2p64 [of shift] ge d
    by auto
  then have ud: "uint (word_of_int d :: size_t) = d"
    by (simp add: uint_word_of_int_id)
  have "max_shift_chain (sb_start sbuff) shift (sbuff # parents) =
          (if d = 0 then None else Some (word_of_int d))"
    unfolding d by (rule max_shift_chain_min [OF ge _ nowrap]) simp
  with chk ud show ?thesis
    by (simp add: fr_sbuff_shift_def Let_def)
qed

text \<open>
  A requested shift so large that the start plus the shift passes \<open>2^64\<close> is not cut
  by the comparison of line 132: on a single view with its cursor at the end, a shift by
  \<^verbatim>\<open>SIZE_MAX\<close> returns \<^verbatim>\<open>SIZE_MAX\<close> and moves the cursor one byte up.
\<close>

lemma fr_sbuff_shift_by_SIZE_MAX:
  "fr_sbuff_shift mem [(fr_sbuff_init 100 4)\<lparr>sb_p := 104\<rparr>] SIZE_MAX
     = (SIZE_MAX, mem, [(fr_sbuff_init 100 4)\<lparr>sb_p := 105, sb_shifted := SIZE_MAX\<rparr>])"
  by (simp add: fr_sbuff_shift_def view_simps update_max_shift_def shift_ptr_def ptr_add_def
      ptr_sub_def uint_minus_one Let_def)

text \<open>
  What \<^verbatim>\<open>fr_sbuff_shift\<close> does to memory. It moves no byte: the one byte it may write is
  the terminator of line 175, at the new cursor of the view, when the call shifts, the
  byte at the old cursor was NUL and the view is not const.
\<close>

lemma max_shift_markers_nonzero:
  "max_shift_markers buff k ms = Some k' \<Longrightarrow> k \<noteq> 0 \<Longrightarrow> k' \<noteq> 0"
  by (induction ms arbitrary: k) (auto simp: Let_def split: if_splits)

lemma max_shift_chain_nonzero:
  "max_shift_chain buff k chain = Some k' \<Longrightarrow> chain \<noteq> [] \<Longrightarrow> k' \<noteq> 0"
proof (induction chain arbitrary: k)
  case Nil
  then show ?case by simp
next
  case (Cons s chain)
  let ?k1 = "update_max_shift buff k (sb_p s)"
  from Cons.prems(1) have k1: "?k1 \<noteq> 0"
    by (auto simp: Let_def split: if_splits)
  with Cons.prems(1) obtain k2 where m: "max_shift_markers buff ?k1 (sb_m s) = Some k2"
    and c: "max_shift_chain buff k2 chain = Some k'"
    by (auto simp: Let_def split: option.splits)
  from max_shift_markers_nonzero [OF m k1] have k2: "k2 \<noteq> 0" .
  show ?case
  proof (cases chain)
    case Nil
    with c k2 show ?thesis by simp
  next
    case (Cons a list)
    with Cons.IH [OF c] show ?thesis by simp
  qed
qed

lemma fr_sbuff_shift_memory:
  assumes "fr_sbuff_shift mem chain shift = (n, mem', chain')"
  shows "mem' = (if n \<noteq> 0 \<and> mem (sb_p (hd chain)) = NUL \<and> \<not> sb_is_const (hd chain)
                 then mem(sb_p (hd chain') := NUL) else mem)"
proof (cases chain)
  case Nil
  with assms show ?thesis
    by (simp add: fr_sbuff_shift_def)
next
  case (Cons s ps)
  show ?thesis
  proof (cases "CHECK_SBUFF_INIT s")
    case False
    with assms Cons show ?thesis
      by (auto simp: fr_sbuff_shift_def)
  next
    case True
    show ?thesis
    proof (cases "max_shift_chain (sb_start s) shift chain")
      case None
      with assms Cons True show ?thesis
        by (auto simp: fr_sbuff_shift_def Let_def)
    next
      case (Some k)
      from max_shift_chain_nonzero [OF Some] Cons have "k \<noteq> 0"
        by simp
      with assms Cons True Some show ?thesis
        by (auto simp: fr_sbuff_shift_def Let_def)
    qed
  qed
qed

text \<open>
  C7, as stated: a shift that discards \<open>n\<close> bytes moves the remaining content down, so
  that the byte at offset \<open>i\<close> after the shift is the byte that was at offset \<open>n + i\<close>,
  for every \<open>i\<close> below \<open>used - n\<close>. On the buffer "abcd" with the cursor at offset 3
  (3 bytes used) a shift by 2 returns 2, and the byte at offset 0 is still \<open>a\<close>, not the
  \<open>c\<close> that was at offset 2.
\<close>

theorem fr_sbuff_shift_content_counterexample:
  "fst (fr_sbuff_shift (memory_of 100 ''abcd'')
               [(fr_sbuff_init 100 4)\<lparr>sb_is_const := False, sb_p := 103\<rparr>] 2) = 2
   \<and> fr_sbuff_used ((fr_sbuff_init 100 4)\<lparr>sb_is_const := False, sb_p := 103\<rparr>) = 3
   \<and> fst (snd (fr_sbuff_shift (memory_of 100 ''abcd'')
               [(fr_sbuff_init 100 4)\<lparr>sb_is_const := False, sb_p := 103\<rparr>] 2)) 100 = CHR ''a''
   \<and> memory_of 100 ''abcd'' 102 = CHR ''c''"
  by (simp add: fr_sbuff_shift_def view_simps update_max_shift_def ptr_add_def Let_def mem_simps
      fr_sbuff_used_def)

lemma fr_sbuff_shift_cursor:
  assumes "fr_sbuff_shift mem (sbuff # parents) shift = (n, mem', chain')" and "n \<noteq> 0"
  shows "sb_p (hd chain') = shift_ptr (sb_start sbuff) n (sb_p sbuff)"
proof (cases "CHECK_SBUFF_INIT sbuff")
  case False
  with assms show ?thesis
    by (simp add: fr_sbuff_shift_def)
next
  case True
  show ?thesis
  proof (cases "max_shift_chain (sb_start sbuff) shift (sbuff # parents)")
    case None
    with assms True show ?thesis
      by (simp add: fr_sbuff_shift_def Let_def)
  next
    case (Some k)
    with assms True show ?thesis
      by (auto simp: fr_sbuff_shift_def Let_def)
  qed
qed

text \<open>
  C7, amended. \<^verbatim>\<open>fr_sbuff_shift\<close> moves no content; its comment leaves the \<^verbatim>\<open>memmove\<close>
  to the caller. For a view whose start and cursor are addresses, after a call that
  returns \<open>n\<close> the byte at offset \<open>i\<close> is the byte that was at offset \<open>i\<close> before the
  call, for every \<open>i\<close> below \<open>used - n\<close>.
\<close>

theorem fr_sbuff_shift_keeps_bytes:
  assumes run: "fr_sbuff_shift mem (sbuff # parents) shift = (n, mem', chain')"
    and addr: "0 \<le> sb_start sbuff" "sb_start sbuff \<le> sb_p sbuff" "sb_p sbuff < 2 ^ 64"
    and i: "0 \<le> i" "i < uint (fr_sbuff_used sbuff) - uint n"
  shows "mem' (sb_start sbuff + i) = mem (sb_start sbuff + i)"
proof (cases "n \<noteq> 0 \<and> mem (sb_p sbuff) = NUL \<and> \<not> sb_is_const sbuff")
  case False
  with fr_sbuff_shift_memory [OF run] show ?thesis
    by auto
next
  case True
  with fr_sbuff_shift_memory [OF run] have m: "mem' = mem(sb_p (hd chain') := NUL)"
    by simp
  from True fr_sbuff_shift_cursor [OF run]
  have p': "sb_p (hd chain') = shift_ptr (sb_start sbuff) n (sb_p sbuff)"
    by simp
  have "uint (fr_sbuff_used sbuff) = sb_p sbuff - sb_start sbuff"
    unfolding fr_sbuff_used_def using addr by (intro uint_word_of_int_id) simp_all
  with i have lt: "sb_start sbuff + i < sb_p sbuff - uint n"
    by simp
  with i(1) addr(1) have ge: "0 \<le> sb_p sbuff - uint n"
    by simp
  have "sb_p sbuff - uint n < 2 ^ 64"
    using uint_ge_0 [of n] addr(3) by linarith
  with ge have "ptr_sub (sb_p sbuff) n = sb_p sbuff - uint n"
    by (simp add: ptr_sub_def)
  with lt i(1) have "shift_ptr (sb_start sbuff) n (sb_p sbuff) = sb_p sbuff - uint n"
    by (simp add: shift_ptr_def)
  with p' lt have "sb_p (hd chain') \<noteq> sb_start sbuff + i"
    by simp
  with m show ?thesis
    by simp
qed

text \<open>
  The theorem on the buffer "abcd" with the cursor behind the string (4 bytes used), for
  a shift by 2: the bytes at offsets 0 and 1 are after the call what they were before it.
\<close>

theorem fr_sbuff_shift_keeps_bytes_witness:
  "fst (fr_sbuff_shift (memory_of 100 ''abcd'')
          [(fr_sbuff_init 100 4)\<lparr>sb_is_const := False, sb_p := 104\<rparr>] 2) = 2 \<and>
   0 \<le> sb_start ((fr_sbuff_init 100 4)\<lparr>sb_is_const := False, sb_p := 104\<rparr>) \<and>
   sb_start ((fr_sbuff_init 100 4)\<lparr>sb_is_const := False, sb_p := 104\<rparr>)
     \<le> sb_p ((fr_sbuff_init 100 4)\<lparr>sb_is_const := False, sb_p := 104\<rparr>) \<and>
   sb_p ((fr_sbuff_init 100 4)\<lparr>sb_is_const := False, sb_p := 104\<rparr>) < 2 ^ 64 \<and>
   (1 :: int) < uint (fr_sbuff_used ((fr_sbuff_init 100 4)\<lparr>sb_is_const := False, sb_p := 104\<rparr>))
                  - uint (2 :: size_t) \<and>
   fst (snd (fr_sbuff_shift (memory_of 100 ''abcd'')
          [(fr_sbuff_init 100 4)\<lparr>sb_is_const := False, sb_p := 104\<rparr>] 2)) (100 + 0)
     = memory_of 100 ''abcd'' (100 + 0) \<and>
   fst (snd (fr_sbuff_shift (memory_of 100 ''abcd'')
          [(fr_sbuff_init 100 4)\<lparr>sb_is_const := False, sb_p := 104\<rparr>] 2)) (100 + 1)
     = memory_of 100 ''abcd'' (100 + 1) \<and>
   memory_of 100 ''abcd'' (100 + 0) = CHR ''a'' \<and> memory_of 100 ''abcd'' (100 + 1) = CHR ''b''"
proof -
  let ?M = "memory_of 100 ''abcd''"
  let ?V = "(fr_sbuff_init 100 4)\<lparr>sb_is_const := False, sb_p := 104\<rparr>"
  obtain n m c where r: "fr_sbuff_shift ?M [?V] 2 = (n, m, c)"
    by (cases "fr_sbuff_shift ?M [?V] 2") auto
  have n: "n = 2"
    using r by (auto simp: fr_sbuff_shift_def view_simps update_max_shift_def ptr_add_def Let_def)
  have a: "0 \<le> sb_start ?V" "sb_start ?V \<le> sb_p ?V" "sb_p ?V < 2 ^ 64"
    by (simp_all add: fr_sbuff_init_def)
  have u: "(1 :: int) < uint (fr_sbuff_used ?V) - uint (2 :: size_t)"
    "(0 :: int) < uint (fr_sbuff_used ?V) - uint (2 :: size_t)"
    by (simp_all add: view_simps)
  have s: "sb_start ?V = 100"
    by (simp add: fr_sbuff_init_def)
  have b: "?M (100 + 0) = CHR ''a''" "?M (100 + 1) = CHR ''b''"
    by (simp_all add: mem_simps)
  from fr_sbuff_shift_keeps_bytes [OF r a, of 0] u(2) n s
  have k0: "m (100 + 0) = ?M (100 + 0)"
    by simp
  from fr_sbuff_shift_keeps_bytes [OF r a, of 1] u(1) n s
  have k1: "m (100 + 1) = ?M (100 + 1)"
    by simp
  from r n a u(1) k0 k1 b show ?thesis
    by simp
qed

text \<open>
  The terminator of line 175 is written before any byte has been moved. On the buffer
  "abcd" with the cursor behind it (4 bytes used) and a shift by 2, the bytes "cd" of
  offsets 2 and 3 are the content to keep. The call returns 2 and writes NUL over the
  \<open>c\<close> at offset 2, the new cursor; the \<^verbatim>\<open>memmove\<close> of the caller, whether of the two
  bytes of content or of these and the terminator, then brings NUL and \<open>d\<close> to the
  front.
\<close>

lemma fr_sbuff_shift_overwrites_content:
  "fr_sbuff_shift (memory_of 100 ''abcd'')
       [(fr_sbuff_init 100 4)\<lparr>sb_is_const := False, sb_p := 104\<rparr>] 2
     = (2, (memory_of 100 ''abcd'')(102 := NUL),
        [(fr_sbuff_init 100 4)\<lparr>sb_is_const := False, sb_p := 102, sb_shifted := 2\<rparr>]) \<and>
   fr_sbuff_used ((fr_sbuff_init 100 4)\<lparr>sb_is_const := False, sb_p := 104\<rparr>) = 4 \<and>
   bytes (memory_of 100 ''abcd'') 102 2 = ''cd'' \<and>
   bytes ((memory_of 100 ''abcd'')(102 := NUL)) 100 2 = ''ab'' \<and>
   bytes (memmove ((memory_of 100 ''abcd'')(102 := NUL)) 100 102 2) 100 2
     = [NUL, CHR ''d''] \<and>
   bytes (memmove ((memory_of 100 ''abcd'')(102 := NUL)) 100 102 3) 100 2
     = [NUL, CHR ''d'']"
proof -
  have "memory_of 100 ''abcd'' 104 = NUL"
    by (simp add: mem_simps)
  then have run: "fr_sbuff_shift (memory_of 100 ''abcd'')
       [(fr_sbuff_init 100 4)\<lparr>sb_is_const := False, sb_p := 104\<rparr>] 2
     = (2, (memory_of 100 ''abcd'')(102 := NUL),
        [(fr_sbuff_init 100 4)\<lparr>sb_is_const := False, sb_p := 102, sb_shifted := 2\<rparr>])"
    by (simp add: fr_sbuff_shift_def fr_sbuff_init_def CHECK_SBUFF_INIT_def NULL_def
        update_max_shift_def shift_ptr_def ptr_add_def ptr_sub_def Let_def)
  have used: "fr_sbuff_used ((fr_sbuff_init 100 4)\<lparr>sb_is_const := False, sb_p := 104\<rparr>) = 4"
    by (simp add: view_simps)
  have b: "bytes (memory_of 100 ''abcd'') 102 2 = ''cd''"
    "bytes ((memory_of 100 ''abcd'')(102 := NUL)) 100 2 = ''ab''"
    "bytes (memmove ((memory_of 100 ''abcd'')(102 := NUL)) 100 102 2) 100 2
       = [NUL, CHR ''d'']"
    "bytes (memmove ((memory_of 100 ''abcd'')(102 := NUL)) 100 102 3) 100 2
       = [NUL, CHR ''d'']"
    by (simp_all add: mem_simps memmove_def upt_rec)
  from run used b show ?thesis
    by (simp only: simp_thms)
qed

subsection \<open>Growth: \<^verbatim>\<open>fr_sbuff_extend_talloc\<close>\<close>

text \<open>The run of \<^verbatim>\<open>test_talloc_extend\<close>: every value the test checks is the one it expects.\<close>

lemma test_talloc_extend_run:
  "test_talloc_extend =
     [(0, 0, 33, []), (0, 0, 1, []), (10, 10, 33, ''0123456789''),
      (0, 10, 11, ''0123456789''), (10, 20, 33, ''01234567890123456789''),
      (0, 20, 21, ''01234567890123456789''),
      (15, 35, 41, ''01234567890123456789012345678901234''),
      (1, 36, 41, ''01234567890123456789012345678901234A''),
      (4, 40, 41, ''01234567890123456789012345678901234ABCDE''),
      (1, 41, 51, ''01234567890123456789012345678901234ABCDEF''),
      (9, 50, 51, ''01234567890123456789012345678901234ABCDEFGHIJKLMNO''),
      (- 1, 50, 51, ''01234567890123456789012345678901234ABCDEFGHIJKLMNO''),
      (0, 50, 51, ''01234567890123456789012345678901234ABCDEFGHIJKLMNO'')]"
  by code_simp

text \<open>
  The runs of \<^verbatim>\<open>test_talloc_extend_multi_level\<close> and \<^verbatim>\<open>test_talloc_extend_with_marker\<close>:
  the write through the child moves the parent's cursor, and every value the tests check
  is the one they expect.
\<close>

lemma test_talloc_extend_multi_level_run:
  "test_talloc_extend_multi_level =
     ((0, 0, 1, []), (0, 1, []), (1, (1, 2, ''A''), (1, 2, ''A'')),
      [8192, 8192], [8193, 8193], [8193, 8193])"
  by code_simp

lemma test_talloc_extend_with_marker_run:
  "test_talloc_extend_with_marker =
     ([1, 1, 2, 1, 1, 2, 3, 1, 0, 0, 2, 1, 0, 1, 0, 2, 3, 5], [''A'', ''AB'', ''C''])"
  by code_simp

text \<open>
  With \<open>init = 32\<close> and \<open>max = 50\<close>: a write of 49 bytes leaves an array of 51 bytes, a
  trim one of 50, and then a write of one byte is refused, where without the trim it
  succeeds and leaves 50 bytes of content in the array of 51.
\<close>

lemma write_trim_write_run:
  "(let (r, mem, heap, chain) = fr_sbuff_init_talloc 4096 (\<lambda>_. NUL) (\<lambda>_. 0) 32 50
    in run_steps mem heap chain
         [(8192, In_strcpy ''0123456789012345678901234567890123456789012345678''),
          (4096, Trim_talloc),
          (8192, In_strcpy ''x'')])
   = [(49, 49, 51, ''0123456789012345678901234567890123456789012345678''),
      (0, 49, 50, ''0123456789012345678901234567890123456789012345678''),
      (- 1, 49, 50, ''0123456789012345678901234567890123456789012345678'')]"
  "(let (r, mem, heap, chain) = fr_sbuff_init_talloc 4096 (\<lambda>_. NUL) (\<lambda>_. 0) 32 50
    in run_steps mem heap chain
         [(8192, In_strcpy ''0123456789012345678901234567890123456789012345678''),
          (8192, In_strcpy ''x'')])
   = [(49, 49, 51, ''0123456789012345678901234567890123456789012345678''),
      (1, 50, 51, ''0123456789012345678901234567890123456789012345678x'')]"
  by code_simp+

text \<open>
  C3. The claim has \<^verbatim>\<open>fr_sbuff_extend_talloc\<close> clamp the new size so that the content
  never exceeds \<open>max\<close>, with one byte more for the terminator, and return 0 when no
  bytes can be added. The run of \<^verbatim>\<open>test_talloc_extend\<close> is as the claim has it. But
  take \<open>init = 32\<close> and \<open>max = 50\<close>, where the array may have 51 bytes, and an array of
  50 bytes that holds 49 bytes of content, the cursor at the end of the view (the state
  after a write of 49 bytes and a trim). A request for one more byte, which leaves the
  content within \<open>max\<close>, returns 0 and changes nothing: line 223 computes
  \<open>max - clen = 0\<close> and line 224 takes that for a full buffer, where the array is full
  at \<open>max + 1\<close> bytes. From an array of 49 bytes with 48 bytes of content the same
  request returns 2 and leaves the array of 51 bytes, with room for 50 bytes of content.
\<close>

theorem fr_sbuff_extend_talloc_refuses_below_max:
  "fr_sbuff_extend_talloc 8192 mem ((\<lambda>_. 0)(4096 := 50))
       [\<lparr>sb_buff = 4096, sb_start = 4096, sb_end = 4145, sb_p = 4145, sb_is_const = False,
         sb_shifted = 0, sb_extend = Extend_talloc,
         sb_uctx = \<lparr>tctx_init = 32, tctx_max = 50\<rparr>, sb_m = []\<rparr>] 1
     = (0, mem, (\<lambda>_. 0)(4096 := 50),
       [\<lparr>sb_buff = 4096, sb_start = 4096, sb_end = 4145, sb_p = 4145, sb_is_const = False,
         sb_shifted = 0, sb_extend = Extend_talloc,
         sb_uctx = \<lparr>tctx_init = 32, tctx_max = 50\<rparr>, sb_m = []\<rparr>]) \<and>
   fr_sbuff_used
        \<lparr>sb_buff = 4096, sb_start = 4096, sb_end = 4145, sb_p = 4145, sb_is_const = False,
         sb_shifted = 0, sb_extend = Extend_talloc,
         sb_uctx = \<lparr>tctx_init = 32, tctx_max = 50\<rparr>, sb_m = []\<rparr> = 49 \<and>
   (case fr_sbuff_extend_talloc 8192 mem ((\<lambda>_. 0)(4096 := 49))
       [\<lparr>sb_buff = 4096, sb_start = 4096, sb_end = 4144, sb_p = 4144, sb_is_const = False,
         sb_shifted = 0, sb_extend = Extend_talloc,
         sb_uctx = \<lparr>tctx_init = 32, tctx_max = 50\<rparr>, sb_m = []\<rparr>] 1 of
      (r, mem', heap', chain') \<Rightarrow>
        r = 2 \<and> talloc_array_length heap' (sb_buff (hd chain')) = 51 \<and>
        fr_sbuff_used (hd chain') = 48 \<and> fr_sbuff_remaining (hd chain') = 2)"
  by (simp add: fr_sbuff_extend_talloc_def extend_talloc_elen_def talloc_array_length_def
      talloc_realloc_def fr_sbuff_update_def update_ptr_def view_simps Let_def)

subsection \<open>Exact copy: \<^verbatim>\<open>fr_sbuff_out_bstrncpy_exact\<close>\<close>

text \<open>
  C4, as stated: exact-copying 26 bytes into a fixed destination of 19 bytes returns -7.
  For a source of 26 bytes and 26 bytes requested the function returns -8.
\<close>

theorem fr_sbuff_out_bstrncpy_exact_26_counterexample:
  "fst (fr_sbuff_out_bstrncpy_exact (memory_of 100 ''i am a longer test string!'') 1000 19
          (fr_sbuff_init 100 26) 26) = - 8 \<and>
   fst (fr_sbuff_out_bstrncpy_exact (memory_of 100 ''i am a longer test string!'') 1000 19
          (fr_sbuff_init 100 26) 26) \<noteq> - 7"
  by (simp add: fr_sbuff_out_bstrncpy_exact_def view_simps)

text \<open>
  C4, amended. Let \<open>len\<close> be the requested length (the remaining length of the source
  for \<^verbatim>\<open>SIZE_MAX\<close>). When the destination cannot hold \<open>len\<close> bytes and a terminator
  (\<open>outlen < len + 1\<close>, which covers a destination of size zero), and the deficit fits a
  \<^verbatim>\<open>ssize_t\<close>, \<^verbatim>\<open>fr_sbuff_out_bstrncpy_exact\<close> returns \<open>- (len + 1 - outlen)\<close>, the negative
  of the number of additional bytes the caller would need, writes nothing at all and
  leaves the source view as it was. In particular the 25 bytes of the test string and a
  destination of 19 bytes give -7, and a destination of size zero gives -26.
\<close>

theorem fr_sbuff_out_bstrncpy_exact_deficit:
  assumes chk: "CHECK_SBUFF_INIT sbuff_in"
    and len: "len = (if len0 = SIZE_MAX then word_of_int (sb_end sbuff_in - sb_p sbuff_in) else len0)"
    and short: "uint outlen < uint len + 1"
    and repr: "uint len + 1 - uint outlen \<le> 2 ^ 63"
  shows "fr_sbuff_out_bstrncpy_exact mem out outlen sbuff_in len0
           = (- (uint len + 1 - uint outlen), mem, sbuff_in)"
proof (cases "outlen = 0")
  case True
  have eq: "- (len + 1) = (word_of_int (- (uint len + 1)) :: 64 word)"
    by (simp add: wi_hom_syms)
  have "sint (word_of_int (- (uint len + 1)) :: 64 word) = - (uint len + 1)"
  proof (rule sint_word_of_int_64)
    show "- (2 ^ 63) \<le> - (uint len + 1)" using repr True by simp
    have "(0 :: int) < 2 ^ 63" by simp
    with uint_ge_0 [of len] show "- (uint len + 1) < 2 ^ 63" by linarith
  qed
  with eq have "sint (- (len + 1)) = - (uint len + 1)" by (simp only:)
  with chk len True show ?thesis
    by (simp add: fr_sbuff_out_bstrncpy_exact_def Let_def del: minus_add_distrib)
next
  case False
  then have pos: "1 \<le> uint outlen"
    by (metis uint_0_iff uint_ge_0 linorder_not_less int_one_le_iff_zero_less order_le_less)
  then have u1: "uint (outlen - 1) = uint outlen - 1"
    by (simp add: uint_sub_lem [THEN iffD1])
  have gt: "len > outlen - 1"
    using short u1 by (simp add: word_less_def)
  have eq: "outlen - 1 - len = (word_of_int (uint outlen - 1 - uint len) :: 64 word)"
    by (simp add: wi_hom_syms)
  have "sint (word_of_int (uint outlen - 1 - uint len) :: 64 word) = uint outlen - 1 - uint len"
  proof (rule sint_word_of_int_64)
    show "- (2 ^ 63) \<le> uint outlen - 1 - uint len" using repr by simp
    have "(0 :: int) < 2 ^ 63" by simp
    with short show "uint outlen - 1 - uint len < 2 ^ 63" by linarith
  qed
  with eq have "sint (outlen - 1 - len) = uint outlen - 1 - uint len" by (simp only:)
  with chk len False gt show ?thesis
    by (simp add: fr_sbuff_out_bstrncpy_exact_def Let_def)
qed

theorem fr_sbuff_out_bstrncpy_exact_deficit_witness:
  "CHECK_SBUFF_INIT (fr_sbuff_init 100 25) \<and>
   uint (19 :: size_t) < uint (25 :: size_t) + 1 \<and>
   fr_sbuff_out_bstrncpy_exact (memory_of 100 ''i am a longer test string'') 1000 19
       (fr_sbuff_init 100 25) SIZE_MAX
     = (- 7, memory_of 100 ''i am a longer test string'', fr_sbuff_init 100 25) \<and>
   fr_sbuff_out_bstrncpy_exact (memory_of 100 ''i am a longer test string'') 1000 0
       (fr_sbuff_init 100 25) SIZE_MAX
     = (- 26, memory_of 100 ''i am a longer test string'', fr_sbuff_init 100 25)"
proof -
  have chk: "CHECK_SBUFF_INIT (fr_sbuff_init 100 25)"
    by (simp add: view_simps)
  have len: "(25 :: size_t) = (if SIZE_MAX = SIZE_MAX
      then word_of_int (sb_end (fr_sbuff_init 100 25) - sb_p (fr_sbuff_init 100 25))
      else SIZE_MAX)"
    by (simp add: fr_sbuff_init_def)
  have s19: "uint (19 :: size_t) < uint (25 :: size_t) + 1"
    and r19: "uint (25 :: size_t) + 1 - uint (19 :: size_t) \<le> 2 ^ 63"
    and s0: "uint (0 :: size_t) < uint (25 :: size_t) + 1"
    and r0: "uint (25 :: size_t) + 1 - uint (0 :: size_t) \<le> 2 ^ 63"
    by simp_all
  from fr_sbuff_out_bstrncpy_exact_deficit [OF chk len s19 r19,
        of "memory_of 100 ''i am a longer test string''" 1000]
    fr_sbuff_out_bstrncpy_exact_deficit [OF chk len s0 r0,
        of "memory_of 100 ''i am a longer test string''" 1000]
    chk s19
  show ?thesis
    by simp
qed

subsection \<open>Search and skip\<close>

text \<open>
  The loop of \<^verbatim>\<open>fr_sbuff_adv_past_whitespace\<close> tests the byte at the cursor on every
  turn: it runs to the end of the view or does not move.
\<close>

lemma whitespace_loop_eq:
  "p \<le> sb_end sbuff \<Longrightarrow>
     whitespace_loop mem sbuff p = (if isspace (mem (sb_p sbuff)) then sb_end sbuff else p)"
proof (induction mem sbuff p rule: whitespace_loop.induct)
  case (1 mem sbuff p)
  show ?case
  proof (cases "p < sb_end sbuff \<and> isspace (mem (sb_p sbuff))")
    case True
    then have "p + 1 \<le> sb_end sbuff"
      by simp
    from "1.IH" [OF True this] True show ?thesis
      by (subst whitespace_loop.simps) simp
  next
    case False
    with "1.prems" show ?thesis
      by (subst whitespace_loop.simps) auto
  qed
qed

text \<open>
  C5. The claim has \<^verbatim>\<open>fr_sbuff_adv_past_whitespace\<close> stop at the first byte that is not
  white space. On the three bytes " ab" the run of white space at the cursor is one byte
  long; the function returns 3 and leaves the cursor at the end of the view.
\<close>

theorem fr_sbuff_adv_past_whitespace_runs_to_end:
  "fr_sbuff_adv_past_whitespace (memory_of 100 '' ab'') (fr_sbuff_init 100 3) = (3, (fr_sbuff_init 100 3)\<lparr>sb_p := 103\<rparr>)"
  by (simp add: fr_sbuff_adv_past_whitespace_def view_simps mem_simps whitespace_loop.simps isspace_def)

text \<open>
  C8. The claim has \<^verbatim>\<open>fr_sbuff_adv_past_str\<close> and \<^verbatim>\<open>fr_sbuff_adv_past_strcase\<close> return
  true and advance exactly when the needle occurs at the cursor. Lines 927 and 954 return
  false when \<^verbatim>\<open>sbuff->p + len >= sbuff->end\<close>: on a view over the three bytes "foo", the
  needle "foo" occurs at the cursor and ends at the end of the view, and both functions
  return false without moving. The two examples of the claim hold: at "foobar" the needle
  "foo" is passed and the cursor moves by 3, at "fobar" it is not and the cursor stays.
\<close>

theorem fr_sbuff_adv_past_str_needle_at_end:
  "fr_sbuff_adv_past_str (store_bytes (memory_of 100 ''foo'') 200 ''foo'')
       (fr_sbuff_init 100 3) 200 3
     = Some (False, fr_sbuff_init 100 3) \<and>
   fr_sbuff_adv_past_strcase (store_bytes (memory_of 100 ''foo'') 200 ''FOO'')
       (fr_sbuff_init 100 3) 200 3
     = Some (False, fr_sbuff_init 100 3) \<and>
   fr_sbuff_adv_past_str (store_bytes (memory_of 100 ''foobar'') 200 ''foo'')
       (fr_sbuff_init 100 6) 200 SIZE_MAX
     = Some (True, (fr_sbuff_init 100 6)\<lparr>sb_p := 103\<rparr>) \<and>
   fr_sbuff_adv_past_str (store_bytes (memory_of 100 ''fobar'') 200 ''foo'')
       (fr_sbuff_init 100 5) 200 SIZE_MAX
     = Some (False, fr_sbuff_init 100 5)"
  by (simp add: fr_sbuff_adv_past_str_def fr_sbuff_adv_past_strcase_def view_simps mem_simps
      strlen_def strlen_from.simps upt_rec)

subsection \<open>The invariant \<^verbatim>\<open>start <= p <= end\<close>\<close>

text \<open>
  The hierarchy of the next theorem, made by the operations of a caller on a buffer of
  4 bytes at 100: advance by 1, set a marker, advance by 1, copy the view, advance the
  copy by 2.
\<close>

lemma hierarchy_with_marker:
  "snd (fr_sbuff_advance_chain
          (FR_SBUFF_COPY
             (snd (fr_sbuff_advance_chain
                     (fr_sbuff_marker
                        (snd (fr_sbuff_advance_chain
                                [(fr_sbuff_init 100 4)\<lparr>sb_is_const := False\<rparr>] 1))) 1))) 2)
   = [\<lparr>sb_buff = 100, sb_start = 102, sb_end = 104, sb_p = 104, sb_is_const = False,
       sb_shifted = 0, sb_extend = No_extend,
       sb_uctx = \<lparr>tctx_init = 0, tctx_max = 0\<rparr>, sb_m = []\<rparr>,
      \<lparr>sb_buff = 100, sb_start = 100, sb_end = 104, sb_p = 104, sb_is_const = False,
       sb_shifted = 0, sb_extend = No_extend,
       sb_uctx = \<lparr>tctx_init = 0, tctx_max = 0\<rparr>, sb_m = [101]\<rparr>]"
  by (simp add: fr_sbuff_advance_chain_def FR_SBUFF_COPY_def fr_sbuff_marker_def view_simps)

text \<open>
  C9. The claim has every view keep \<^verbatim>\<open>start <= p <= end\<close> after every operation, a shift
  among them. Take a buffer of 4 bytes at 100, a parent view over it with a marker at
  101 and its cursor at the end, 104, and a child view that starts at 102, where the
  parent's cursor stood when the child was made, with its cursor at 104 as well. Both
  views keep the invariant. A shift by 1 through the child measures from the child's
  start: the marker lies in front of it, line 132 leaves \<open>1 - 2 = 2^64 - 1\<close> in
  \<^verbatim>\<open>max_shift\<close>, the function returns that, and line 131 has moved both cursors by it,
  in 64 bits one byte up, to 105: beyond the end of their views, which is 104.
\<close>

theorem fr_sbuff_shift_cursor_past_end:
  "(let chain =
      [\<lparr>sb_buff = 100, sb_start = 102, sb_end = 104, sb_p = 104, sb_is_const = False,
        sb_shifted = 0, sb_extend = No_extend,
        sb_uctx = \<lparr>tctx_init = 0, tctx_max = 0\<rparr>, sb_m = []\<rparr>,
       \<lparr>sb_buff = 100, sb_start = 100, sb_end = 104, sb_p = 104, sb_is_const = False,
        sb_shifted = 0, sb_extend = No_extend,
        sb_uctx = \<lparr>tctx_init = 0, tctx_max = 0\<rparr>, sb_m = [101]\<rparr>];
       (n, mem', chain') = fr_sbuff_shift mem chain 1
    in chain_inv chain \<and> n = 18446744073709551615 \<and>
       map sb_start chain' = [102, 100] \<and> map sb_p chain' = [105, 105] \<and>
       map sb_end chain' = [104, 104] \<and> \<not> list_all view_inv chain')"
  by (simp add: fr_sbuff_shift_def CHECK_SBUFF_INIT_def NULL_def update_max_shift_def
      shift_ptr_def ptr_add_def ptr_sub_def chain_inv_def view_inv_def uint_minus_one Let_def)

end
